theory Spec2Isabelle
  imports Complex_Main
begin

chapter \<open>MiniSat: the rotator, antenna and rig interfaces\<close>

text \<open>
  A shallow embedding of \<^verbatim>\<open>rigif.py\<close>, \<^verbatim>\<open>rotif.py\<close> and \<^verbatim>\<open>satif.py\<close>.
  Each method becomes a function on an explicit state record. Calls to
  collaborators that are not part of these files (the CAT object, the user
  interface callbacks, the sockets) are recorded in logs held in the state, and
  what those collaborators deliver (datagrams, CAT replies) is read from scripts
  held in the state. Every exception the Python can raise on the modelled paths
  is a value of \<open>error\<close>.
\<close>

section \<open>Python values, exceptions and built-ins\<close>

datatype error =
    ValueError | IndexError | TypeError | NameError | UnboundLocalError | AttributeError
  | OverflowError | UnicodeDecodeError | KeyError | OSError

text \<open>The outcome of a call: it returns a value or raises.\<close>

datatype 'a res = Ok 'a | Raise error

text \<open>
  The Python objects that travel through the queues and the configuration.
  \<open>QueueV\<close> is a reference to the deque handed over as reply sink.
\<close>

datatype pyval = NoneV | BoolV bool | IntV int | StrV string | QueueV | ListV "pyval list"

text \<open>
  A Python \<^verbatim>\<open>str\<close> is a HOL string holding its UTF-8 bytes; the texts
  come from \<^verbatim>\<open>decode('utf-8')\<close> and from literals. \<open>head_cp\<close> reads the
  character at the head of a text: its code point and the number of its
  bytes (\<open>- 1\<close> for a byte that starts no character).
\<close>

fun head_cp :: "string \<Rightarrow> int \<times> nat" where
  "head_cp [] = (- 1, 0)"
| "head_cp (b # bs) =
     (let n = (of_char b :: int) in
      if n < 128 then (n, 1)
      else if 194 \<le> n \<and> n \<le> 223 then
        (case bs of
           c1 # r \<Rightarrow> ((n - 192) * 64 + (of_char c1 - 128), 2)
         | _ \<Rightarrow> (- 1, 1))
      else if 224 \<le> n \<and> n \<le> 239 then
        (case bs of
           c1 # c2 # r \<Rightarrow> ((n - 224) * 4096 + (of_char c1 - 128) * 64 + (of_char c2 - 128), 3)
         | _ \<Rightarrow> (- 1, 1))
      else if 240 \<le> n \<and> n \<le> 244 then
        (case bs of
           c1 # c2 # c3 # r \<Rightarrow>
             ((n - 240) * 262144 + (of_char c1 - 128) * 4096 + (of_char c2 - 128) * 64
                + (of_char c3 - 128), 4)
         | _ \<Rightarrow> (- 1, 1))
      else (- 1, 1))"

text \<open>
  White space as \<^verbatim>\<open>str.isspace\<close> and \<^verbatim>\<open>str.split()\<close> see it: ten ASCII
  characters and the Unicode white space beyond ASCII.
\<close>

definition unicode_spaces :: "int list" where
  "unicode_spaces =
     [0x85, 0xA0, 0x1680, 0x2000, 0x2001, 0x2002, 0x2003, 0x2004, 0x2005, 0x2006,
      0x2007, 0x2008, 0x2009, 0x200A, 0x2028, 0x2029, 0x202F, 0x205F, 0x3000]"

definition space_cp :: "int \<Rightarrow> bool" where
  "space_cp cp = (cp \<in> set [0x09, 0x0A, 0x0B, 0x0C, 0x0D, 0x1C, 0x1D, 0x1E, 0x1F, 0x20]
                  \<or> cp \<in> set unicode_spaces)"

text \<open>
  White space as the number parsers skip it at both ends of an ASCII text
  (the C function \<^verbatim>\<open>isspace\<close>): the characters \<^verbatim>\<open>0x1C\<close> to \<^verbatim>\<open>0x1F\<close> are not
  among them.
\<close>

definition isspace_c :: "char \<Rightarrow> bool" where
  "isspace_c c = (c \<in> set [CHR 0x09, CHR 0x0A, CHR 0x0B, CHR 0x0C, CHR 0x0D, CHR 0x20])"

definition isdigit :: "char \<Rightarrow> bool" where
  "isdigit c = (c \<in> set ''0123456789'')"

definition digit_val :: "char \<Rightarrow> int" where
  "digit_val c = (of_char c :: int) - 48"

definition digit_char :: "int \<Rightarrow> char" where
  "digit_char n = ''0123456789'' ! nat n"

text \<open>
  The decimal digits beyond ASCII (Unicode 14.0, the tables of Python 3.11):
  each code point listed is a digit zero, and the nine code points after it
  are the digits one to nine of the same script.
\<close>

definition unicode_zeros :: "int list" where
  "unicode_zeros =
     [0x660, 0x6F0, 0x7C0, 0x966, 0x9E6, 0xA66, 0xAE6, 0xB66, 0xBE6, 0xC66, 0xCE6,
      0xD66, 0xDE6, 0xE50, 0xED0, 0xF20, 0x1040, 0x1090, 0x17E0, 0x1810, 0x1946,
      0x19D0, 0x1A80, 0x1A90, 0x1B50, 0x1BB0, 0x1C40, 0x1C50, 0xA620, 0xA8D0, 0xA900,
      0xA9D0, 0xA9F0, 0xAA50, 0xABF0, 0xFF10, 0x104A0, 0x10D30, 0x11066, 0x110F0,
      0x11136, 0x111D0, 0x112F0, 0x11450, 0x114D0, 0x11650, 0x116C0, 0x11730, 0x118E0,
      0x11950, 0x11C50, 0x11D50, 0x11DA0, 0x16A60, 0x16AC0, 0x16B50, 0x1D7CE, 0x1D7D8,
      0x1D7E2, 0x1D7EC, 0x1D7F6, 0x1E140, 0x1E2F0, 0x1E950, 0x1FBF0]"

definition decimal_of :: "int \<Rightarrow> int option" where
  "decimal_of cp =
     (case find (\<lambda>z. z \<le> cp \<and> cp < z + 10) unicode_zeros of
        None \<Rightarrow> None
      | Some z \<Rightarrow> Some (cp - z))"

text \<open>
  What \<^verbatim>\<open>int\<close> and \<^verbatim>\<open>float\<close> do to a text before they parse it: an ASCII
  character stays, white space beyond ASCII becomes a space, a decimal digit
  beyond ASCII becomes its ASCII digit, and anything else a question mark,
  which no number holds. \<open>k\<close> counts the bytes still to skip of the
  character just read.
\<close>

definition ascii_of :: "int \<Rightarrow> char \<Rightarrow> char" where
  "ascii_of cp b =
     (if 0 \<le> cp \<and> cp < 128 then b
      else if cp \<in> set unicode_spaces then CHR 0x20
      else (case decimal_of cp of None \<Rightarrow> CHR ''?'' | Some d \<Rightarrow> digit_char d))"

fun to_ascii :: "nat \<Rightarrow> string \<Rightarrow> string" where
  "to_ascii k [] = []"
| "to_ascii (Suc k) (b # bs) = to_ascii k bs"
| "to_ascii 0 (b # bs) =
     (case head_cp (b # bs) of (cp, n) \<Rightarrow> ascii_of cp b # to_ascii (n - 1) bs)"

text \<open>The text without the white space at its two ends, for a number; \<^verbatim>\<open>s.rstrip("\n")\<close>.\<close>

definition strip_c :: "string \<Rightarrow> string" where
  "strip_c s = rev (dropWhile isspace_c (rev (dropWhile isspace_c s)))"

definition rstrip_nl :: "string \<Rightarrow> string" where
  "rstrip_nl s = rev (dropWhile (\<lambda>c. c = CHR 0x0A) (rev s))"

text \<open>\<^verbatim>\<open>s.split(c)\<close> for a one-character separator: every occurrence splits.\<close>

fun split_char :: "char \<Rightarrow> string \<Rightarrow> string list" where
  "split_char c [] = [[]]"
| "split_char c (x # xs) =
     (if x = c then [] # split_char c xs
      else (case split_char c xs of [] \<Rightarrow> [[x]] | p # ps \<Rightarrow> (x # p) # ps))"

text \<open>\<^verbatim>\<open>s.split(c, n)\<close>: at most \<open>n\<close> splits, the rest stays in the last piece.\<close>

fun split_max :: "char \<Rightarrow> nat \<Rightarrow> string \<Rightarrow> string list" where
  "split_max c 0 s = [s]"
| "split_max c (Suc n) [] = [[]]"
| "split_max c (Suc n) (x # xs) =
     (if x = c then [] # split_max c n xs
      else (case split_max c (Suc n) xs of [] \<Rightarrow> [[x]] | p # ps \<Rightarrow> (x # p) # ps))"

text \<open>
  \<^verbatim>\<open>s.split()\<close>: the maximal runs of characters that are no white space.
  \<open>k\<close> counts the bytes still to skip of a white-space character, \<open>cur\<close>
  holds the bytes of the run being read, last byte first.
\<close>

fun split_acc :: "nat \<Rightarrow> string \<Rightarrow> string \<Rightarrow> string list" where
  "split_acc k cur [] = (if cur = [] then [] else [rev cur])"
| "split_acc (Suc k) cur (x # xs) = split_acc k cur xs"
| "split_acc 0 cur (x # xs) =
     (case head_cp (x # xs) of (cp, n) \<Rightarrow>
        if space_cp cp
        then (if cur = [] then split_acc (n - 1) [] xs else rev cur # split_acc (n - 1) [] xs)
        else split_acc 0 (x # cur) xs)"

definition split_ws :: "string \<Rightarrow> string list" where
  "split_ws s = split_acc 0 [] s"

text \<open>
  A digit part of a numeric literal: digits, with single underscores allowed
  between two digits. The function takes the longest such prefix and returns
  its digits and the rest of the text.
\<close>

fun take_digitpart :: "string \<Rightarrow> string \<times> string" where
  "take_digitpart [] = ([], [])"
| "take_digitpart (c # cs) =
     (if isdigit c then
        (case cs of
           u # d # r \<Rightarrow>
             if u = CHR ''_'' \<and> isdigit d
             then (case take_digitpart (d # r) of (ds, rest) \<Rightarrow> (c # ds, rest))
             else (case take_digitpart cs of (ds, rest) \<Rightarrow> (c # ds, rest))
         | _ \<Rightarrow> (case take_digitpart cs of (ds, rest) \<Rightarrow> (c # ds, rest)))
      else ([], c # cs))"

definition int_of_digits :: "string \<Rightarrow> int" where
  "int_of_digits ds = foldl (\<lambda>a c. 10 * a + digit_val c) 0 ds"

text \<open>An optional sign in front of a literal.\<close>

definition take_sign :: "string \<Rightarrow> bool \<times> string" where
  "take_sign t =
     (case t of
        [] \<Rightarrow> (False, [])
      | c # r \<Rightarrow> if c = CHR ''-'' then (True, r)
                 else if c = CHR ''+'' then (False, r) else (False, t))"

text \<open>
  \<^verbatim>\<open>int(s)\<close> for a string: white space at the two ends, a sign, a digit
  part of at most 4300 digits (the limit of Python 3.11; older versions have
  none). \<open>None\<close> is the \<^verbatim>\<open>ValueError\<close>.
\<close>

definition py_int :: "string \<Rightarrow> int option" where
  "py_int s =
     (case take_sign (strip_c (to_ascii 0 s)) of (neg, u) \<Rightarrow>
        (case take_digitpart u of (ds, rest) \<Rightarrow>
           if ds \<noteq> [] \<and> rest = [] \<and> length ds \<le> 4300
           then Some (if neg then - int_of_digits ds else int_of_digits ds)
           else None))"

text \<open>\<^verbatim>\<open>str(n)\<close> for an integer.\<close>

text \<open>The decimal digits of a number that is not negative.\<close>

function digits :: "int \<Rightarrow> string" where
  "digits n = (if n < 10 then [digit_char n] else digits (n div 10) @ [digit_char (n mod 10)])"
  by pat_completeness auto
termination
  by (relation "measure nat") auto

declare digits.simps [simp del]

definition str_int :: "int \<Rightarrow> string" where
  "str_int i = (if i < 0 then CHR ''-'' # digits (- i) else digits i)"

text \<open>
  \<^verbatim>\<open>repr(s)\<close> for a string: single quotes, unless the text holds a
  single quote and no double quote; the quote and the backslash are escaped,
  tab, newline and carriage return are written \<^verbatim>\<open>\t\<close>, \<^verbatim>\<open>\n\<close>, \<^verbatim>\<open>\r\<close>, and
  the other ASCII control characters in hexadecimal.
\<close>

definition hex_digit :: "int \<Rightarrow> char" where
  "hex_digit n = ''0123456789abcdef'' ! nat n"

definition repr_char :: "char \<Rightarrow> char \<Rightarrow> string" where
  "repr_char q c =
     (let n = (of_char c :: int) in
      if c = q \<or> c = CHR 0x5C then [CHR 0x5C, c]
      else if c = CHR 0x09 then [CHR 0x5C, CHR ''t'']
      else if c = CHR 0x0A then [CHR 0x5C, CHR ''n'']
      else if c = CHR 0x0D then [CHR 0x5C, CHR ''r'']
      else if n < 32 \<or> n = 127 then [CHR 0x5C, CHR ''x'', hex_digit (n div 16), hex_digit (n mod 16)]
      else [c])"

definition repr_str :: "string \<Rightarrow> string" where
  "repr_str s =
     (let q = (if CHR 0x27 \<in> set s \<and> CHR 0x22 \<notin> set s then CHR 0x22 else CHR 0x27)
      in q # concat (map (repr_char q) s) @ [q])"

fun join_comma :: "string list \<Rightarrow> string" where
  "join_comma [] = []"
| "join_comma [x] = x"
| "join_comma (x # y # ys) = x @ '', '' @ join_comma (y # ys)"

text \<open>\<^verbatim>\<open>repr(v)\<close>; it differs from \<^verbatim>\<open>str(v)\<close> on strings only.\<close>

fun py_repr :: "pyval \<Rightarrow> string" where
  "py_repr NoneV = ''None''"
| "py_repr (BoolV b) = (if b then ''True'' else ''False'')"
| "py_repr (IntV i) = str_int i"
| "py_repr (StrV s) = repr_str s"
| "py_repr QueueV = ''deque([])''" \<comment> \<open>the elements of the deque are not shown\<close>
| "py_repr (ListV xs) = ''['' @ join_comma (map py_repr xs) @ '']''"

text \<open>\<^verbatim>\<open>str(v)\<close>, as used by the \<^verbatim>\<open>%s\<close> conversions.\<close>

definition py_str :: "pyval \<Rightarrow> string" where
  "py_str v = (case v of StrV s \<Rightarrow> s | _ \<Rightarrow> py_repr v)"

subsection \<open>Floats\<close>

text \<open>
  A Python float is an IEEE binary64 value. A finite one is a rational number,
  held exactly.
\<close>

datatype pyfloat = Fin rat | PInf | NInf | NaN

definition pow2 :: "int \<Rightarrow> rat" where
  "pow2 e = (if 0 \<le> e then 2 ^ nat e else 1 / 2 ^ nat (- e))"

definition pow10 :: "int \<Rightarrow> rat" where
  "pow10 e = (if 0 \<le> e then 10 ^ nat e else 1 / 10 ^ nat (- e))"

function bit_length :: "int \<Rightarrow> int" where
  "bit_length n = (if n \<le> 0 then 0 else 1 + bit_length (n div 2))"
  by pat_completeness auto
termination
  by (relation "measure nat") auto

declare bit_length.simps [simp del]

text \<open>The largest \<open>k\<close> with \<open>2 ^ k \<le> a\<close>, for a positive rational \<open>a\<close>.\<close>

definition floor_log2 :: "rat \<Rightarrow> int" where
  "floor_log2 a =
     (case quotient_of a of (n, d) \<Rightarrow>
        (let e0 = bit_length n - bit_length d
         in if pow2 e0 \<le> a then e0 else e0 - 1))"

definition round_half_even :: "rat \<Rightarrow> int" where
  "round_half_even r =
     (let f = \<lfloor>r\<rfloor>; d = r - of_int f
      in if d < 1 / 2 then f else if 1 / 2 < d then f + 1
         else if even f then f else f + 1)"

text \<open>
  Rounding a rational to the nearest binary64 value, ties to even: 53
  significant bits, the smallest quantum is \<open>2 ^ - 1074\<close>, and a rounded
  value of \<open>2 ^ 1024\<close> or more (binary logarithm at least 1024) is an infinity.
\<close>

definition to_double :: "rat \<Rightarrow> pyfloat" where
  "to_double q =
     (if q = 0 then Fin 0
      else (let a = \<bar>q\<bar>;
                t = max (floor_log2 a - 52) (- 1074);
                v = of_int (round_half_even (a / pow2 t)) * pow2 t
            in if 1024 \<le> floor_log2 v then (if 0 < q then PInf else NInf)
               else Fin (if 0 < q then v else - v)))"

definition lower :: "char \<Rightarrow> char" where
  "lower c = (let n = (of_char c :: nat) in if 65 \<le> n \<and> n \<le> 90 then char_of (n + 32) else c)"

text \<open>The exponent part of a float literal, when there is one.\<close>

definition parse_exponent :: "string \<Rightarrow> int option" where
  "parse_exponent r =
     (case r of
        [] \<Rightarrow> Some 0
      | c # r1 \<Rightarrow>
          if c = CHR ''e'' \<or> c = CHR ''E'' then
            (case take_sign r1 of (neg, r2) \<Rightarrow>
               (case take_digitpart r2 of (ds, rest) \<Rightarrow>
                  if ds \<noteq> [] \<and> rest = []
                  then Some (if neg then - int_of_digits ds else int_of_digits ds)
                  else None))
          else None)"

text \<open>
  \<^verbatim>\<open>float(s)\<close> for a string: white space at the two ends, a sign, then
  \<^verbatim>\<open>inf\<close>, \<^verbatim>\<open>infinity\<close> or \<^verbatim>\<open>nan\<close> in any case, or a decimal literal with an
  optional fraction and exponent. \<open>None\<close> is the \<^verbatim>\<open>ValueError\<close>.
\<close>

definition py_float :: "string \<Rightarrow> pyfloat option" where
  "py_float s =
     (case take_sign (strip_c (to_ascii 0 s)) of (neg, u) \<Rightarrow>
        (let l = map lower u in
         if l = ''inf'' \<or> l = ''infinity'' then Some (if neg then NInf else PInf)
         else if l = ''nan'' then Some NaN
         else
           (case take_digitpart u of (ip, r1) \<Rightarrow>
              (case (case r1 of
                       [] \<Rightarrow> (False, [], [])
                     | c # r \<Rightarrow> if c = CHR ''.''
                                then (case take_digitpart r of (fp, r2) \<Rightarrow> (True, fp, r2))
                                else (False, [], r1)) of
                 (dot, fp, r2) \<Rightarrow>
                   if ip = [] \<and> fp = [] then None
                   else
                     (case parse_exponent r2 of
                        None \<Rightarrow> None
                      | Some e \<Rightarrow>
                          (let m = of_int (int_of_digits (ip @ fp)) * pow10 (e - int (length fp))
                           in Some (to_double (if neg then - m else m))))))))"

text \<open>\<^verbatim>\<open>float(n)\<close> for an integer: the nearest double, or \<^verbatim>\<open>OverflowError\<close>.\<close>

definition float_of_int :: "int \<Rightarrow> pyfloat res" where
  "float_of_int n =
     (case to_double (of_int n) of Fin x \<Rightarrow> Ok (Fin x) | _ \<Rightarrow> Raise OverflowError)"

text \<open>\<^verbatim>\<open>float(v)\<close> for the values that reach it.\<close>

fun float_of :: "pyval \<Rightarrow> pyfloat res" where
  "float_of (IntV n) = float_of_int n"
| "float_of (BoolV b) = Ok (Fin (if b then 1 else 0))"
| "float_of (StrV s) = (case py_float s of None \<Rightarrow> Raise ValueError | Some x \<Rightarrow> Ok x)"
| "float_of NoneV = Raise TypeError"
| "float_of QueueV = Raise TypeError"
| "float_of (ListV xs) = Raise TypeError"

text \<open>\<^verbatim>\<open>int(x)\<close> for a float: truncation towards zero.\<close>

definition py_trunc :: "rat \<Rightarrow> int" where
  "py_trunc x = (if 0 \<le> x then \<lfloor>x\<rfloor> else \<lceil>x\<rceil>)"

fun int_of_float :: "pyfloat \<Rightarrow> int res" where
  "int_of_float (Fin x) = Ok (py_trunc x)"
| "int_of_float NaN = Raise ValueError"
| "int_of_float PInf = Raise OverflowError"
| "int_of_float NInf = Raise OverflowError"

text \<open>\<^verbatim>\<open>'%f' % x\<close>: six digits after the point, rounded half to even.\<close>

definition pad6 :: "string \<Rightarrow> string" where
  "pad6 ds = replicate (6 - length ds) (CHR ''0'') @ ds"

fun fmt_f :: "pyfloat \<Rightarrow> string" where
  "fmt_f (Fin x) =
     (let n = round_half_even (\<bar>x\<bar> * 1000000)
      in (if x < 0 then ''-'' else '''') @ digits (n div 1000000) @ ''.''
         @ pad6 (digits (n mod 1000000)))"
| "fmt_f PInf = ''inf''"
| "fmt_f NInf = ''-inf''"
| "fmt_f NaN = ''nan''"

text \<open>
  \<^verbatim>\<open>data.decode('utf-8')\<close>: the bytes are returned when they are well-formed
  UTF-8 (no overlong form, no surrogate, nothing above U+10FFFF).
\<close>

definition cont_byte :: "char \<Rightarrow> bool" where
  "cont_byte c = (128 \<le> (of_char c :: nat) \<and> (of_char c :: nat) \<le> 191)"

definition byte_in :: "char \<Rightarrow> nat \<Rightarrow> nat \<Rightarrow> bool" where
  "byte_in c lo hi = (lo \<le> (of_char c :: nat) \<and> (of_char c :: nat) \<le> hi)"

fun utf8_valid :: "string \<Rightarrow> bool" where
  "utf8_valid [] = True"
| "utf8_valid (b # bs) =
     (let n = (of_char b :: nat) in
      if n < 128 then utf8_valid bs
      else if 194 \<le> n \<and> n \<le> 223 then
        (case bs of c1 # r \<Rightarrow> cont_byte c1 \<and> utf8_valid r | _ \<Rightarrow> False)
      else if 224 \<le> n \<and> n \<le> 239 then
        (case bs of
           c1 # c2 # r \<Rightarrow>
             byte_in c1 (if n = 224 then 160 else 128) (if n = 237 then 159 else 191)
             \<and> cont_byte c2 \<and> utf8_valid r
         | _ \<Rightarrow> False)
      else if 240 \<le> n \<and> n \<le> 244 then
        (case bs of
           c1 # c2 # c3 # r \<Rightarrow>
             byte_in c1 (if n = 240 then 144 else 128) (if n = 244 then 143 else 191)
             \<and> cont_byte c2 \<and> cont_byte c3 \<and> utf8_valid r
         | _ \<Rightarrow> False)
      else False)"

definition decode_utf8 :: "string \<Rightarrow> string res" where
  "decode_utf8 bs = (if utf8_valid bs then Ok bs else Raise UnicodeDecodeError)"


section \<open>Constants of \<^verbatim>\<open>defs.py\<close>\<close>

definition ONLINE :: int where [simp]: "ONLINE = 0"
definition OFFLINE :: int where [simp]: "OFFLINE = 1"
definition PENDING :: int where [simp]: "PENDING = 2"
definition STARTING_CAL :: int where [simp]: "STARTING_CAL = 3"
definition CAL_FAILED :: int where [simp]: "CAL_FAILED = 4"
definition FAILED :: int where [simp]: "FAILED = 5"
definition WAITING :: int where [simp]: "WAITING = 6"

definition HW_TIMEOUT :: int where [simp]: "HW_TIMEOUT = 3"
definition CAL_TIMEOUT :: int where [simp]: "CAL_TIMEOUT = 30"
definition MOV_TIMEOUT :: int where [simp]: "MOV_TIMEOUT = 30"
definition AZ_MOTOR_SPEED :: int where [simp]: "AZ_MOTOR_SPEED = 30"
definition EL_MOTOR_SPEED :: int where [simp]: "EL_MOTOR_SPEED = 20"

abbreviation CAT_PTT_SET :: string where "CAT_PTT_SET \<equiv> ''catpttset''"
abbreviation CAT_FREQ_SET :: string where "CAT_FREQ_SET \<equiv> ''catfreqset''"
abbreviation CAT_MODE_SET :: string where "CAT_MODE_SET \<equiv> ''catmodeset''"
abbreviation CAT_FREQ_GET :: string where "CAT_FREQ_GET \<equiv> ''catfreqget''"
abbreviation CAT_MODE_GET :: string where "CAT_MODE_GET \<equiv> ''catmodeget''"

section \<open>Log lines\<close>

text \<open>
  What the code appends to its message queue: a fixed or formatted line, the
  line of a catch-all handler (its text holds the exception and a traceback),
  or the dispatcher's line about a failed command.
\<close>

datatype logmsg =
    LogText string
  | LogException string error
  | LogCmdError string "pyval list"

section \<open>The rig interface (\<^verbatim>\<open>rigif.py\<close>, class \<^verbatim>\<open>RigIf\<close>)\<close>

text \<open>
  The fields of a \<^verbatim>\<open>RigIf\<close> object. \<open>lastFreq\<close> is \<open>None\<close> while the
  attribute \<^verbatim>\<open>__lastFreq\<close> does not exist: the constructor never creates it.
  \<open>cat_calls\<close> and \<open>freq_calls\<close> record, in order, the calls of
  \<^verbatim>\<open>cat.do_command\<close> and of the frequency callback. \<open>catq\<close> is the CAT
  response deque of \<^verbatim>\<open>(result, command, data)\<close> triples, and \<open>cat_feed\<close>
  lists what the CAT worker appends to it during each coming sleep of 100 ms.
\<close>

type_synonym cat_reply = "bool \<times> string \<times> pyval"

record rig_state =
  ptt :: bool
  rigPtt :: bool
  lastFreq :: "string option"
  rig_restart :: bool
  rig_terminate :: bool
  rig_sendq :: "string list"
  rig_msgq :: "logmsg list"
  catq :: "cat_reply list"
  cat_feed :: "cat_reply list list"
  cat_calls :: "(string \<times> pyval list) list"
  freq_calls :: "(bool \<times> string) list"

text \<open>The state the constructor leaves, for a given CAT response deque and message deque.\<close>

definition RigIf_init :: "cat_reply list \<Rightarrow> cat_reply list list \<Rightarrow> logmsg list \<Rightarrow> rig_state" where
  "RigIf_init q feed msgs =
     \<lparr> ptt = False, rigPtt = False, lastFreq = None, rig_restart = False,
       rig_terminate = False, rig_sendq = [], rig_msgq = msgs, catq = q,
       cat_feed = feed, cat_calls = [], freq_calls = [] \<rparr>"

definition do_command :: "string \<Rightarrow> pyval list \<Rightarrow> rig_state \<Rightarrow> rig_state" where
  "do_command op args s = s\<lparr>cat_calls := cat_calls s @ [(op, args)]\<rparr>"

definition rig_send :: "string \<Rightarrow> rig_state \<Rightarrow> rig_state" where
  "rig_send line s = s\<lparr>rig_sendq := rig_sendq s @ [line]\<rparr>"

definition rig_log :: "logmsg \<Rightarrow> rig_state \<Rightarrow> rig_state" where
  "rig_log m s = s\<lparr>rig_msgq := rig_msgq s @ [m]\<rparr>"

definition manualSetPtt :: "bool \<Rightarrow> rig_state \<Rightarrow> rig_state" where
  "manualSetPtt p s =
     (let s1 = s\<lparr>ptt := p\<rparr>
      in if \<not> ptt s1 then (do_command CAT_PTT_SET [BoolV False] s1)\<lparr>rigPtt := False\<rparr> else s1)"

definition getRigPtt :: "rig_state \<Rightarrow> bool" where
  "getRigPtt s = rigPtt s"

text \<open>One sleep of 100 ms: the CAT worker's next batch of replies reaches the deque.\<close>

definition cat_sleep :: "rig_state \<Rightarrow> rig_state" where
  "cat_sleep s =
     (case cat_feed s of
        [] \<Rightarrow> s
      | b # bs \<Rightarrow> s\<lparr>catq := catq s @ b, cat_feed := bs\<rparr>)"

text \<open>
  \<^verbatim>\<open>__cat_response\<close>: the loop with its counter of 50 sleeps. The two log
  statements call the message deque itself, \<^verbatim>\<open>self.__msgq(...)\<close>; a deque is
  not callable, so each of them raises \<^verbatim>\<open>TypeError\<close> and the statement after
  it is not reached.
\<close>

function cat_response_loop :: "string \<Rightarrow> int \<Rightarrow> rig_state \<Rightarrow> pyval res \<times> rig_state" where
  "cat_response_loop command count s =
     (case catq s of
        [] \<Rightarrow>
          (let s1 = cat_sleep s; count1 = count - 1
           in if count1 \<le> 0 then (Raise TypeError, s1)
              else cat_response_loop command count1 s1)
      | (r, cmd, data) # rest \<Rightarrow>
          (let s1 = s\<lparr>catq := rest\<rparr>
           in if r then (if cmd = command then (Ok data, s1) else (Raise TypeError, s1))
              else cat_response_loop command count s1))"
  by pat_completeness auto
termination
  by (relation "measures [\<lambda>(c, n, s). nat n, \<lambda>(c, n, s). length (catq s)]") auto

declare cat_response_loop.simps [simp del]

definition cat_response :: "string \<Rightarrow> rig_state \<Rightarrow> pyval res \<times> rig_state" where
  "cat_response command s = cat_response_loop command 50 s"

text \<open>
  The tokens of a received message: trailing newlines removed, split at every
  space, empty pieces dropped.
\<close>

definition rig_params :: "string \<Rightarrow> string list" where
  "rig_params msg = filter (\<lambda>tok. 0 < length tok) (split_char (CHR '' '') (rstrip_nl msg))"

text \<open>
  The branches of \<^verbatim>\<open>__listenCallback\<close>, one definition for each command
  code. \<open>arg1\<close> and \<open>arg2\<close> are \<open>None\<close> while the local variable is unbound;
  reading an unbound local raises.
\<close>

text \<open>\<^verbatim>\<open>F\<close>: set the frequency, and key the transmitter after a jump of more than 100 kHz.\<close>

definition rig_set_freq :: "string option \<Rightarrow> rig_state \<Rightarrow> unit res \<times> rig_state" where
  "rig_set_freq arg1 s =
     (case arg1 of
        None \<Rightarrow> (Raise UnboundLocalError, s)
      | Some freq \<Rightarrow>
         (let s1 = do_command CAT_FREQ_SET [StrV freq] s;
              s2 = rig_send ''RPRT 0\<newline>'' s1;
              s3 = s2\<lparr>freq_calls := freq_calls s2 @ [(ptt s2, freq)]\<rparr>
          in if ptt s3 then
               (case py_int freq of
                  None \<Rightarrow> (Raise ValueError, s3)
                | Some f \<Rightarrow>
                   (case lastFreq s3 of
                      None \<Rightarrow> (Raise AttributeError, s3)
                    | Some l \<Rightarrow>
                       (case py_int l of
                          None \<Rightarrow> (Raise ValueError, s3)
                        | Some lf \<Rightarrow>
                           (let s4 = (if 100000 < \<bar>f - lf\<bar>
                                      then (do_command CAT_PTT_SET [BoolV True] s3)\<lparr>rigPtt := True\<rparr>
                                      else s3)
                            in (Ok (), s4\<lparr>lastFreq := Some freq\<rparr>)))))
             else (Ok (), s3\<lparr>lastFreq := Some freq\<rparr>)))"

text \<open>\<^verbatim>\<open>f\<close>: ask the CAT object for the frequency and forward the reply.\<close>

definition rig_get_freq :: "rig_state \<Rightarrow> unit res \<times> rig_state" where
  "rig_get_freq s =
     (case cat_response CAT_FREQ_GET (do_command CAT_FREQ_GET [] s) of
        (Raise e, s1) \<Rightarrow> (Raise e, s1)
      | (Ok f, s1) \<Rightarrow> (Ok (), if f \<noteq> NoneV then rig_send (py_str f @ ''\<newline>'') s1 else s1))"

text \<open>\<^verbatim>\<open>t\<close>: report the manual PTT status.\<close>

definition rig_get_ptt :: "rig_state \<Rightarrow> unit res \<times> rig_state" where
  "rig_get_ptt s = (Ok (), if ptt s then rig_send ''1\<newline>'' s else rig_send ''0\<newline>'' s)"

text \<open>\<^verbatim>\<open>M\<close>: set the mode; the passband is read and not used.\<close>

definition rig_set_mode :: "string option \<Rightarrow> string option \<Rightarrow> rig_state \<Rightarrow> unit res \<times> rig_state" where
  "rig_set_mode arg1 arg2 s =
     (case arg1 of
        None \<Rightarrow> (Raise UnboundLocalError, s)
      | Some mode \<Rightarrow>
         (case arg2 of
            None \<Rightarrow> (Raise UnboundLocalError, s)
          | Some passband \<Rightarrow>
              (Ok (), rig_send ''RPRT 0\<newline>'' (do_command CAT_MODE_SET [StrV mode] s))))"

text \<open>
  \<^verbatim>\<open>m\<close>: ask for the mode. \<open>mode_for_id\<close> and \<open>bandwidth_for_mode\<close> are the
  two methods of the CAT object (\<^verbatim>\<open>cat.py\<close>) called here.
\<close>

definition rig_get_mode ::
  "(pyval \<Rightarrow> pyval) \<Rightarrow> (pyval \<Rightarrow> pyval) \<Rightarrow> rig_state \<Rightarrow> unit res \<times> rig_state" where
  "rig_get_mode mode_for_id bandwidth_for_mode s =
     (case cat_response CAT_MODE_GET (do_command CAT_MODE_GET [] s) of
        (Raise e, s1) \<Rightarrow> (Raise e, s1)
      | (Ok mode, s1) \<Rightarrow>
         (let smode = mode_for_id mode;
              sfilt = bandwidth_for_mode smode
          in (Ok (), rig_send (py_str smode @ '' '' @ py_str sfilt @ ''\<newline>'') s1)))"

definition rig_quit :: "rig_state \<Rightarrow> unit res \<times> rig_state" where
  "rig_quit s =
     (Ok (), rig_send ''RPRT 0\<newline>''
        ((rig_log (LogText ''Request to quit from sat control program!'') s)\<lparr>rig_restart := True\<rparr>))"

definition rig_exit :: "rig_state \<Rightarrow> unit res \<times> rig_state" where
  "rig_exit s = (Ok (), (rig_log (LogText ''Rig listner requested exit!'') s)\<lparr>rig_restart := True\<rparr>)"

definition rig_unknown :: "string \<Rightarrow> rig_state \<Rightarrow> unit res \<times> rig_state" where
  "rig_unknown msg s =
     (Ok (), rig_send ''RPRT 0\<newline>''
        (rig_log (LogText (''Unknown command from rig interface! ['' @ msg @ '']'')) s))"

text \<open>
  The \<^verbatim>\<open>try\<close> block of \<^verbatim>\<open>__listenCallback\<close>: tokenise, bind \<open>arg1\<close> when
  there are exactly two tokens and \<open>arg2\<close> when there are exactly three, and
  branch on the first token.
\<close>

definition rig_listen_body ::
  "(pyval \<Rightarrow> pyval) \<Rightarrow> (pyval \<Rightarrow> pyval) \<Rightarrow> string \<Rightarrow> rig_state \<Rightarrow> unit res \<times> rig_state" where
  "rig_listen_body mode_for_id bandwidth_for_mode msg s =
     (if length msg = 0 then (Ok (), s)
      else
       (case rig_params msg of
          [] \<Rightarrow> (Raise IndexError, s)
        | code # rest \<Rightarrow>
           (let arg1 = (if length (code # rest) = 2 then Some ((code # rest) ! 1) else None);
                arg2 = (if length (code # rest) = 3 then Some ((code # rest) ! 2) else None)
            in if code = ''F'' then rig_set_freq arg1 s
               else if code = ''f'' then rig_get_freq s
               else if code = ''t'' then rig_get_ptt s
               else if code = ''M'' then rig_set_mode arg1 arg2 s
               else if code = ''m'' then rig_get_mode mode_for_id bandwidth_for_mode s
               else if code = ''q'' then rig_quit s
               else if code = ''x'' then rig_exit s
               else rig_unknown (rstrip_nl msg) s)))"

text \<open>
  \<^verbatim>\<open>__listenCallback\<close>: the catch-all handler logs the exception and asks
  for a restart; nothing is raised to the caller.
\<close>

definition rig_listenCallback ::
  "(pyval \<Rightarrow> pyval) \<Rightarrow> (pyval \<Rightarrow> pyval) \<Rightarrow> string \<Rightarrow> rig_state \<Rightarrow> rig_state" where
  "rig_listenCallback mode_for_id bandwidth_for_mode msg s =
     (case rig_listen_body mode_for_id bandwidth_for_mode msg s of
        (Ok u, s1) \<Rightarrow> s1
      | (Raise e, s1) \<Rightarrow>
          (rig_log (LogException ''Problem with rig interface, error in callback'' e) s1)
            \<lparr>rig_restart := True\<rparr>)"


section \<open>The rotator interface (\<^verbatim>\<open>rotif.py\<close>, classes \<^verbatim>\<open>RotIf\<close> and \<^verbatim>\<open>EvntIf\<close>)\<close>

text \<open>
  What the interface does to the outside, in program order: a datagram sent on
  the command socket, a call of the state callback, a call of the position
  callback (the user interface appends the pair to its event deque). The
  assignments to \<^verbatim>\<open>__degaz\<close> and \<^verbatim>\<open>__degel\<close> are recorded in the same trace,
  so that their place among the callbacks can be stated.
\<close>

datatype effect =
    Sent string
  | StateCb int
  | PosCb string int
  | SetDegAz int
  | SetDegEl int

text \<open>
  What \<^verbatim>\<open>recvfrom\<close> does on a socket with a timeout: it raises
  \<^verbatim>\<open>socket.timeout\<close>, it returns the bytes of a datagram, or it raises another
  socket error.
\<close>

datatype recv = Timeout | Datagram string | SockError

text \<open>
  The fields of a \<^verbatim>\<open>RotIf\<close> object, with its surroundings: \<open>cmd_timeout\<close> is
  the timeout set on the command socket, \<open>cmd_replies\<close> lists what the coming
  calls of \<^verbatim>\<open>recvfrom\<close> on that socket will do (when the list is used up the
  controller stays silent), \<open>sinkq\<close> is the deque that \<open>QueueV\<close> refers to,
  and \<open>config_cal\<close> is the dictionary \<^verbatim>\<open>defs.config["Calibration"]\<close>. The
  lock is not modelled: the embedding follows one thread at a time.
\<close>

record rot_state =
  status :: int
  calaz :: pyval
  calel :: pyval
  degaz :: int
  degel :: int
  rot_terminate :: bool
  cmd_timeout :: int
  rot_msgq :: "logmsg list"
  trace :: "effect list"
  cmd_replies :: "recv list"
  sinkq :: "string list"
  config_cal :: "string \<rightharpoonup> pyval"

text \<open>The state the constructor leaves.\<close>

definition RotIf_init :: "logmsg list \<Rightarrow> recv list \<Rightarrow> string list \<Rightarrow> (string \<rightharpoonup> pyval) \<Rightarrow> rot_state" where
  "RotIf_init msgs replies sink cal =
     \<lparr> status = OFFLINE, calaz = IntV (- 1), calel = IntV (- 1), degaz = - 1, degel = - 1,
       rot_terminate = False, cmd_timeout = HW_TIMEOUT,
       rot_msgq = msgs @ [LogText ''HW interface initialised.''],
       trace = [], cmd_replies = replies, sinkq = sink, config_cal = cal \<rparr>"

definition emit :: "effect list \<Rightarrow> rot_state \<Rightarrow> rot_state" where
  "emit es s = s\<lparr>trace := trace s @ es\<rparr>"

definition rot_log :: "logmsg \<Rightarrow> rot_state \<Rightarrow> rot_state" where
  "rot_log m s = s\<lparr>rot_msgq := rot_msgq s @ [m]\<rparr>"

text \<open>The datagrams sent on the command socket, in order.\<close>

fun sent_of :: "effect list \<Rightarrow> string list" where
  "sent_of [] = []"
| "sent_of (Sent c # es) = c # sent_of es"
| "sent_of (e # es) = sent_of es"

text \<open>The effects that a step from \<open>s\<close> to \<open>s'\<close> added.\<close>

definition new_effects :: "rot_state \<Rightarrow> rot_state \<Rightarrow> effect list" where
  "new_effects s s' = drop (length (trace s)) (trace s')"

text \<open>What the next \<^verbatim>\<open>recvfrom\<close> on the command socket does.\<close>

definition next_recv :: "rot_state \<Rightarrow> recv" where
  "next_recv s = (case cmd_replies s of [] \<Rightarrow> Timeout | r # rs \<Rightarrow> r)"

text \<open>
  \<^verbatim>\<open>__doCommand\<close>: send the command, wait for one datagram. Only
  \<^verbatim>\<open>socket.timeout\<close> is caught. \<^verbatim>\<open>sendto\<close> is taken to succeed.
\<close>

definition doCommand :: "string \<Rightarrow> rot_state \<Rightarrow> (bool \<times> string) res \<times> rot_state" where
  "doCommand cmd s =
     (let s1 = (emit [Sent cmd] s)\<lparr>cmd_replies := tl (cmd_replies s)\<rparr>
      in case next_recv s of
           Timeout \<Rightarrow> (Ok (False, ''nak''), s1)
         | SockError \<Rightarrow> (Raise OSError, s1)
         | Datagram bs \<Rightarrow>
             (case decode_utf8 bs of
                Raise e \<Rightarrow> (Raise e, s1)
              | Ok d \<Rightarrow> (Ok (True, d), s1)))"

text \<open>Set the socket timeout, then exchange one command: the body shared by most methods.\<close>

definition exchange :: "int \<Rightarrow> string \<Rightarrow> rot_state \<Rightarrow> (bool \<times> string) res \<times> rot_state" where
  "exchange t cmd s = doCommand cmd (s\<lparr>cmd_timeout := t\<rparr>)"

definition poll :: "rot_state \<Rightarrow> (bool \<times> string) res \<times> rot_state" where
  "poll s =
     (case exchange HW_TIMEOUT ''poll'' s of
        (Raise e, s1) \<Rightarrow> (Raise e, s1)
      | (Ok r, s1) \<Rightarrow> (Ok r, if fst r then (emit [StateCb PENDING] s1)\<lparr>status := PENDING\<rparr> else s1))"

definition isOnLine :: "rot_state \<Rightarrow> (bool \<times> string) res \<times> rot_state" where
  "isOnLine s =
     (case exchange HW_TIMEOUT ''poll'' s of
        (Raise e, s1) \<Rightarrow> (Raise e, s1)
      | (Ok r, s1) \<Rightarrow> (Ok r, if \<not> fst r then (emit [StateCb OFFLINE] s1)\<lparr>status := OFFLINE\<rparr> else s1))"

text \<open>
  \<^verbatim>\<open>getPos\<close>: the attribute \<^verbatim>\<open>q.append\<close> is looked up before the text is
  formatted, so a sink that is no deque fails first.
\<close>

definition pos_text :: "pyfloat \<Rightarrow> pyfloat \<Rightarrow> string" where
  "pos_text a e = fmt_f a @ ''\<newline>'' @ fmt_f e @ ''\<newline>''"

definition getPos :: "pyval list \<Rightarrow> rot_state \<Rightarrow> bool res \<times> rot_state" where
  "getPos args s =
     (case args of
        az # el # q # rest \<Rightarrow>
          if q = QueueV then
            (case float_of (if status s = ONLINE then IntV (degaz s) else az) of
               Raise e \<Rightarrow> (Raise e, s)
             | Ok a \<Rightarrow>
                (case float_of (if status s = ONLINE then IntV (degel s) else el) of
                   Raise e \<Rightarrow> (Raise e, s)
                 | Ok e \<Rightarrow> (Ok True, s\<lparr>sinkq := sinkq s @ [pos_text a e]\<rparr>)))
          else (Raise AttributeError, s)
      | _ \<Rightarrow> (Raise IndexError, s))"

definition setCalAz :: "pyval \<Rightarrow> rot_state \<Rightarrow> (bool \<times> string) res \<times> rot_state" where
  "setCalAz calibration s =
     (if status s = OFFLINE then (Ok (True, ''ack''), s)
      else exchange HW_TIMEOUT (py_str calibration @ ''a'') s)"

definition setCalEl :: "pyval \<Rightarrow> rot_state \<Rightarrow> (bool \<times> string) res \<times> rot_state" where
  "setCalEl calibration s =
     (if status s = OFFLINE then (Ok (True, ''ack''), s)
      else exchange HW_TIMEOUT (py_str calibration @ ''b'') s)"

definition setAzSpeed :: "pyval \<Rightarrow> rot_state \<Rightarrow> (bool \<times> string) res \<times> rot_state" where
  "setAzSpeed speed s =
     (if status s = OFFLINE then (Ok (True, ''ack''), s)
      else exchange HW_TIMEOUT (py_str speed @ ''n'') s)"

definition setElSpeed :: "pyval \<Rightarrow> rot_state \<Rightarrow> (bool \<times> string) res \<times> rot_state" where
  "setElSpeed speed s =
     (if status s = OFFLINE then (Ok (True, ''ack''), s)
      else exchange HW_TIMEOUT (py_str speed @ ''m'') s)"

definition calibrateAz :: "rot_state \<Rightarrow> bool res \<times> rot_state" where
  "calibrateAz s =
     (case exchange CAL_TIMEOUT ''calaz'' s of
        (Raise e, s1) \<Rightarrow> (Raise e, s1)
      | (Ok (r, d), s1) \<Rightarrow>
          if r \<and> d \<noteq> ''nak''
          then (Ok True, (emit [SetDegAz 0] s1)\<lparr>degaz := 0, calaz := StrV d\<rparr>)
          else (Ok False, s1))"

definition calibrateEl :: "rot_state \<Rightarrow> bool res \<times> rot_state" where
  "calibrateEl s =
     (case exchange CAL_TIMEOUT ''calel'' s of
        (Raise e, s1) \<Rightarrow> (Raise e, s1)
      | (Ok (r, d), s1) \<Rightarrow>
          if r \<and> d \<noteq> ''nak''
          then (Ok True, (emit [SetDegEl 0] s1)\<lparr>degel := 0, calel := StrV d\<rparr>)
          else (Ok False, s1))"

text \<open>
  \<^verbatim>\<open>homeAz\<close>, \<^verbatim>\<open>homeEl\<close>: the position is set to 0 and reported whatever the
  controller answered.
\<close>

definition homeAz :: "rot_state \<Rightarrow> (bool \<times> string) res \<times> rot_state" where
  "homeAz s =
     (if status s = OFFLINE then (Ok (True, ''ack''), s)
      else
       (case exchange MOV_TIMEOUT ''homeaz'' s of
          (Raise e, s1) \<Rightarrow> (Raise e, s1)
        | (Ok r, s1) \<Rightarrow> (Ok r, (emit [SetDegAz 0, PosCb ''az'' 0] s1)\<lparr>degaz := 0\<rparr>)))"

definition homeEl :: "rot_state \<Rightarrow> (bool \<times> string) res \<times> rot_state" where
  "homeEl s =
     (if status s = OFFLINE then (Ok (True, ''ack''), s)
      else
       (case exchange MOV_TIMEOUT ''homeel'' s of
          (Raise e, s1) \<Rightarrow> (Raise e, s1)
        | (Ok r, s1) \<Rightarrow> (Ok r, (emit [SetDegEl 0, PosCb ''el'' 0] s1)\<lparr>degel := 0\<rparr>)))"

text \<open>The second half of \<^verbatim>\<open>setPosAz\<close> and \<^verbatim>\<open>setPosEl\<close>: the move itself.\<close>

definition move_to :: "string \<Rightarrow> pyval list \<Rightarrow> rot_state \<Rightarrow> (bool \<times> string) res \<times> rot_state" where
  "move_to suffix params s =
     (if status s = OFFLINE then (Ok (True, ''ack''), s)
      else
       (case params of
          [] \<Rightarrow> (Raise IndexError, s)
        | p # rest \<Rightarrow> exchange MOV_TIMEOUT (py_str p @ suffix) s))"

definition setPosAz :: "pyval list \<Rightarrow> rot_state \<Rightarrow> (bool \<times> string) res \<times> rot_state" where
  "setPosAz params s =
     (if degaz s = - 1 then
        (case homeAz s of
           (Raise e, s1) \<Rightarrow> (Raise e, s1)
         | (Ok (r, d), s1) \<Rightarrow>
             if r \<and> d \<noteq> ''nak''
             then move_to ''z'' params ((emit [SetDegAz 0] s1)\<lparr>degaz := 0\<rparr>)
             else (Ok (r, d), s1))
      else move_to ''z'' params s)"

definition setPosEl :: "pyval list \<Rightarrow> rot_state \<Rightarrow> (bool \<times> string) res \<times> rot_state" where
  "setPosEl params s =
     (if degel s = - 1 then
        (case homeEl s of
           (Raise e, s1) \<Rightarrow> (Raise e, s1)
         | (Ok (r, d), s1) \<Rightarrow>
             if r \<and> d \<noteq> ''nak''
             then move_to ''e'' params ((emit [SetDegEl 0] s1)\<lparr>degel := 0\<rparr>)
             else (Ok (r, d), s1))
      else move_to ''e'' params s)"

text \<open>The four nudge methods differ in the command only.\<close>

definition nudge :: "string \<Rightarrow> rot_state \<Rightarrow> (bool \<times> string) res \<times> rot_state" where
  "nudge cmd s =
     (if status s = OFFLINE then (Ok (True, ''ack''), s)
      else exchange MOV_TIMEOUT cmd s)"

definition nudgeAzFwd :: "rot_state \<Rightarrow> (bool \<times> string) res \<times> rot_state" where
  "nudgeAzFwd = nudge ''ngazfwd''"

definition nudgeAzRev :: "rot_state \<Rightarrow> (bool \<times> string) res \<times> rot_state" where
  "nudgeAzRev = nudge ''ngazrev''"

definition nudgeElFwd :: "rot_state \<Rightarrow> (bool \<times> string) res \<times> rot_state" where
  "nudgeElFwd = nudge ''ngelfwd''"

definition nudgeElRev :: "rot_state \<Rightarrow> (bool \<times> string) res \<times> rot_state" where
  "nudgeElRev = nudge ''ngelrev''"

text \<open>
  \<^verbatim>\<open>coldStart\<close>. \<open>cal_failed\<close> is the failure exit shared by its steps: the
  state callback, the status, the result \<^verbatim>\<open>False\<close>; the first four exits log
  a line before it.
\<close>

definition cal_failed :: "rot_state \<Rightarrow> bool res \<times> rot_state" where
  "cal_failed s = (Ok False, (emit [StateCb CAL_FAILED] s)\<lparr>status := CAL_FAILED\<rparr>)"

definition go_online :: "rot_state \<Rightarrow> bool res \<times> rot_state" where
  "go_online s = (Ok True, (emit [StateCb ONLINE] s)\<lparr>status := ONLINE\<rparr>)"

definition load_calibration :: "rot_state \<Rightarrow> bool res \<times> rot_state" where
  "load_calibration s =
     (case config_cal s ''AZ'' of
        None \<Rightarrow> (Raise KeyError, s)
      | Some az \<Rightarrow>
         (case setCalAz az s of
            (Raise e, s1) \<Rightarrow> (Raise e, s1)
          | (Ok (r, d), s1) \<Rightarrow>
              if r \<and> d \<noteq> ''nak'' then
                (case config_cal s1 ''EL'' of
                   None \<Rightarrow> (Raise KeyError, s1)
                 | Some el \<Rightarrow>
                    (case setCalEl el s1 of
                       (Raise e, s2) \<Rightarrow> (Raise e, s2)
                     | (Ok (r2, d2), s2) \<Rightarrow>
                         if r2 \<and> d2 \<noteq> ''nak'' then go_online s2 else cal_failed s2))
              else cal_failed s1))"

definition run_calibration :: "rot_state \<Rightarrow> bool res \<times> rot_state" where
  "run_calibration s =
     (case calibrateAz s of
        (Raise e, s1) \<Rightarrow> (Raise e, s1)
      | (Ok okaz, s1) \<Rightarrow>
          if okaz then
            (case calibrateEl s1 of
               (Raise e, s2) \<Rightarrow> (Raise e, s2)
             | (Ok okel, s2) \<Rightarrow>
                 if okel then go_online s2
                 else cal_failed (rot_log (LogText ''Failed to calibrate elevation motor!'') s2))
          else cal_failed (rot_log (LogText ''Failed to calibrate azimuth motor!'') s1))"

definition coldStart :: "rot_state \<Rightarrow> bool res \<times> rot_state" where
  "coldStart s =
     (if status s = OFFLINE then (Ok True, s)
      else
       (case setAzSpeed (IntV AZ_MOTOR_SPEED) s of
          (Raise e, s1) \<Rightarrow> (Raise e, s1)
        | (Ok (r, d), s1) \<Rightarrow>
            if r \<and> d \<noteq> ''nak'' then
              (case setElSpeed (IntV EL_MOTOR_SPEED) s1 of
                 (Raise e, s2) \<Rightarrow> (Raise e, s2)
               | (Ok (r2, d2), s2) \<Rightarrow>
                   if r2 \<and> d2 \<noteq> ''nak'' then
                     (if config_cal s2 ''AZ'' \<noteq> None \<and> config_cal s2 ''EL'' \<noteq> None
                      then load_calibration s2
                      else run_calibration s2)
                   else cal_failed (rot_log (LogText ''Failed to set elevation motor speed!'') s2))
            else cal_failed (rot_log (LogText ''Failed to set azimuth motor speed!'') s1)))"

text \<open>
  \<^verbatim>\<open>terminate\<close>: the calibration is saved when both values differ from the
  initial \<^verbatim>\<open>-1\<close>. Stopping and joining the event thread is not modelled.
\<close>

definition rot_terminate_call :: "rot_state \<Rightarrow> rot_state" where
  "rot_terminate_call s =
     (let s1 = s\<lparr>rot_terminate := True\<rparr>
      in if calaz s1 \<noteq> IntV (- 1) \<and> calel s1 \<noteq> IntV (- 1)
         then s1\<lparr>config_cal := (config_cal s1)(''AZ'' \<mapsto> calaz s1, ''EL'' \<mapsto> calel s1)\<rparr>
         else s1)"

text \<open>
  \<^verbatim>\<open>__event_callback\<close>. \<open>event_try\<close> is the \<^verbatim>\<open>try\<close> block: the position
  callback is called first, the field is assigned after it. The handler of
  \<^verbatim>\<open>ValueError\<close> calls \<^verbatim>\<open>self.__msgq.append\<close> with two arguments; the method
  takes one, so the handler raises \<^verbatim>\<open>TypeError\<close> and nothing is appended.
  Any other exception of the block is not caught.
\<close>

definition event_try :: "string list \<Rightarrow> rot_state \<Rightarrow> unit res \<times> rot_state" where
  "event_try poslist s =
     (case poslist of
        axis # v # rest \<Rightarrow>
          (case py_int v of
             None \<Rightarrow> (Raise ValueError, s)
           | Some n \<Rightarrow>
              (let s1 = emit [PosCb axis n] s
               in if axis = ''az'' then (Ok (), (emit [SetDegAz n] s1)\<lparr>degaz := n\<rparr>)
                  else if axis = ''el'' then (Ok (), (emit [SetDegEl n] s1)\<lparr>degel := n\<rparr>)
                  else (Ok (), s1)))
      | _ \<Rightarrow> (Raise IndexError, s))"

definition event_callback :: "string \<Rightarrow> rot_state \<Rightarrow> unit res \<times> rot_state" where
  "event_callback position s =
     (case event_try (split_max (CHR '':'') 2 position) s of
        (Raise e, s1) \<Rightarrow> if e = ValueError then (Raise TypeError, s1) else (Raise e, s1)
      | (Ok u, s1) \<Rightarrow> (Ok u, s1))"

text \<open>
  One turn of the loop of \<^verbatim>\<open>EvntIf.run\<close>, for what \<^verbatim>\<open>recvfrom\<close> does on the
  event socket: only \<^verbatim>\<open>socket.timeout\<close> is caught.
\<close>

definition evnt_step :: "recv \<Rightarrow> rot_state \<Rightarrow> unit res \<times> rot_state" where
  "evnt_step r s =
     (case r of
        Timeout \<Rightarrow> (Ok (), s)
      | SockError \<Rightarrow> (Raise OSError, s)
      | Datagram bs \<Rightarrow>
          (case decode_utf8 bs of
             Raise e \<Rightarrow> (Raise e, s)
           | Ok position \<Rightarrow> event_callback position s))"

text \<open>
  \<^verbatim>\<open>EvntIf.run\<close> over the receptions that happen before the thread is told to
  stop. An exception that leaves a turn ends the thread: the result is
  \<open>Raise\<close> and the rest of the receptions is never read.
\<close>

fun evnt_loop :: "recv list \<Rightarrow> rot_state \<Rightarrow> unit res \<times> rot_state" where
  "evnt_loop [] s = (Ok (), rot_log (LogText ''Event thread exiting...'') s)"
| "evnt_loop (r # rs) s =
     (case evnt_step r s of
        (Raise e, s1) \<Rightarrow> (Raise e, s1)
      | (Ok u, s1) \<Rightarrow> evnt_loop rs s1)"

definition EvntIf_run :: "recv list \<Rightarrow> rot_state \<Rightarrow> unit res \<times> rot_state" where
  "EvntIf_run rs s = evnt_loop rs (rot_log (LogText ''Event thread starting (position events) ...'') s)"

text \<open>
  The dispatch of \<^verbatim>\<open>RotIf.run\<close>: the method is found by name and called
  with the argument list when the list is not empty, without argument
  otherwise. The result is the truth value that \<^verbatim>\<open>run\<close> tests: a pair is
  true. A method called with the wrong number of arguments raises
  \<^verbatim>\<open>TypeError\<close>, an unknown name \<^verbatim>\<open>KeyError\<close>.
\<close>

definition truthy :: "('a res \<times> rot_state) \<Rightarrow> bool res \<times> rot_state" where
  "truthy x = (case x of (Raise e, s) \<Rightarrow> (Raise e, s) | (Ok r, s) \<Rightarrow> (Ok True, s))"

definition lookup_names :: "string list" where
  "lookup_names =
     [''coldstart'', ''poll'', ''isonline'', ''getPos'', ''setCalAz'', ''setCalEl'',
      ''setAzSpeed'', ''setElSpeed'', ''calibrateAz'', ''calibrateEl'', ''homeAz'', ''homeEl'',
      ''setPosAz'', ''setPosEl'', ''nudgeazfwd'', ''nudgeazrev'', ''nudgeelfwd'', ''nudgeelrev'']"

definition call_with_args :: "string \<Rightarrow> pyval list \<Rightarrow> rot_state \<Rightarrow> bool res \<times> rot_state" where
  "call_with_args cmd args s =
     (if cmd = ''getPos'' then getPos args s
      else if cmd = ''setCalAz'' then truthy (setCalAz (ListV args) s)
      else if cmd = ''setCalEl'' then truthy (setCalEl (ListV args) s)
      else if cmd = ''setAzSpeed'' then truthy (setAzSpeed (ListV args) s)
      else if cmd = ''setElSpeed'' then truthy (setElSpeed (ListV args) s)
      else if cmd = ''setPosAz'' then truthy (setPosAz args s)
      else if cmd = ''setPosEl'' then truthy (setPosEl args s)
      else (Raise TypeError, s))"

definition call_no_args :: "string \<Rightarrow> rot_state \<Rightarrow> bool res \<times> rot_state" where
  "call_no_args cmd s =
     (if cmd = ''coldstart'' then coldStart s
      else if cmd = ''poll'' then truthy (poll s)
      else if cmd = ''isonline'' then truthy (isOnLine s)
      else if cmd = ''calibrateAz'' then calibrateAz s
      else if cmd = ''calibrateEl'' then calibrateEl s
      else if cmd = ''homeAz'' then truthy (homeAz s)
      else if cmd = ''homeEl'' then truthy (homeEl s)
      else if cmd = ''nudgeazfwd'' then truthy (nudgeAzFwd s)
      else if cmd = ''nudgeazrev'' then truthy (nudgeAzRev s)
      else if cmd = ''nudgeelfwd'' then truthy (nudgeElFwd s)
      else if cmd = ''nudgeelrev'' then truthy (nudgeElRev s)
      else (Raise TypeError, s))"

definition run_item :: "string \<times> pyval list \<Rightarrow> rot_state \<Rightarrow> unit res \<times> rot_state" where
  "run_item item s =
     (case item of (cmd, args) \<Rightarrow>
        if cmd \<in> set lookup_names then
          (if 0 < length args then
             (case call_with_args cmd args s of
                (Raise e, s1) \<Rightarrow> (Raise e, s1)
              | (Ok t, s1) \<Rightarrow> (Ok (), if t then s1 else rot_log (LogCmdError cmd args) s1))
           else
             (case call_no_args cmd s of
                (Raise e, s1) \<Rightarrow> (Raise e, s1)
              | (Ok t, s1) \<Rightarrow> (Ok (), if t then s1 else rot_log (LogCmdError cmd []) s1)))
        else (Raise KeyError, s))"

text \<open>
  The inner loop of \<^verbatim>\<open>RotIf.run\<close> over the content of the command deque,
  first in first out. Nothing in \<^verbatim>\<open>run\<close> catches an exception: the first one
  ends the thread.
\<close>

fun run_cmdq :: "(string \<times> pyval list) list \<Rightarrow> rot_state \<Rightarrow> unit res \<times> rot_state" where
  "run_cmdq [] s = (Ok (), s)"
| "run_cmdq (item # items) s =
     (case run_item item s of
        (Raise e, s1) \<Rightarrow> (Raise e, s1)
      | (Ok u, s1) \<Rightarrow> run_cmdq items s1)"


section \<open>The antenna interface (\<^verbatim>\<open>satif.py\<close>, class \<^verbatim>\<open>SatIf\<close>)\<close>

text \<open>
  The fields of a \<^verbatim>\<open>SatIf\<close> object. \<open>sat_cmdq\<close> is the command deque
  shared with the rotator thread, \<open>position_calls\<close> records the calls of the
  position callback.
\<close>

record sat_state =
  azimuth :: int
  elevation :: int
  sat_restart :: bool
  sat_terminate :: bool
  sat_sendq :: "string list"
  sat_msgq :: "logmsg list"
  sat_cmdq :: "(string \<times> pyval list) list"
  position_calls :: "(int \<times> int) list"

definition SatIf_init :: "(string \<times> pyval list) list \<Rightarrow> logmsg list \<Rightarrow> sat_state" where
  "SatIf_init cmds msgs =
     \<lparr> azimuth = 0, elevation = 0, sat_restart = False, sat_terminate = False,
       sat_sendq = [], sat_msgq = msgs, sat_cmdq = cmds, position_calls = [] \<rparr>"

definition sat_send :: "string \<Rightarrow> sat_state \<Rightarrow> sat_state" where
  "sat_send line s = s\<lparr>sat_sendq := sat_sendq s @ [line]\<rparr>"

definition sat_log :: "logmsg \<Rightarrow> sat_state \<Rightarrow> sat_state" where
  "sat_log m s = s\<lparr>sat_msgq := sat_msgq s @ [m]\<rparr>"

definition sat_enqueue :: "string \<times> pyval list \<Rightarrow> sat_state \<Rightarrow> sat_state" where
  "sat_enqueue item s = s\<lparr>sat_cmdq := sat_cmdq s @ [item]\<rparr>"

text \<open>\<^verbatim>\<open>int(float(tok))\<close>.\<close>

definition int_float :: "string \<Rightarrow> int res" where
  "int_float tok = (case py_float tok of None \<Rightarrow> Raise ValueError | Some x \<Rightarrow> int_of_float x)"

text \<open>
  The inner \<^verbatim>\<open>try\<close> block of the \<^verbatim>\<open>P\<close> command. The azimuth is assigned
  before the elevation is parsed.
\<close>

definition sat_set_pos_try :: "string \<Rightarrow> string \<Rightarrow> sat_state \<Rightarrow> unit res \<times> sat_state" where
  "sat_set_pos_try t1 t2 s =
     (case int_float t1 of
        Raise e \<Rightarrow> (Raise e, s)
      | Ok az \<Rightarrow>
         (let s1 = s\<lparr>azimuth := az\<rparr>
          in case int_float t2 of
               Raise e \<Rightarrow> (Raise e, s1)
             | Ok el \<Rightarrow>
                (let s2 = s1\<lparr>elevation := el\<rparr>;
                     s3 = sat_enqueue (''setPosAz'', [IntV (azimuth s2)]) s2;
                     s4 = sat_enqueue (''setPosEl'', [IntV (elevation s3)]) s3;
                     s5 = s4\<lparr>position_calls := position_calls s4 @ [(azimuth s4, elevation s4)]\<rparr>
                 in (Ok (), sat_send ''RPRT 0\<newline>'' s5))))"

text \<open>
  The \<^verbatim>\<open>P\<close> command. The handler of \<^verbatim>\<open>ValueError\<close> names a variable
  \<^verbatim>\<open>paramList\<close> that does not exist: evaluating the arguments of its log call
  raises \<^verbatim>\<open>NameError\<close>.
\<close>

definition sat_set_pos :: "string \<Rightarrow> string list \<Rightarrow> sat_state \<Rightarrow> unit res \<times> sat_state" where
  "sat_set_pos msg toks s =
     (if length toks = 3 then
        (case sat_set_pos_try (toks ! 1) (toks ! 2) s of
           (Raise e, s1) \<Rightarrow> if e = ValueError then (Raise NameError, s1) else (Raise e, s1)
         | (Ok u, s1) \<Rightarrow> (Ok u, s1))
      else
        (Ok (), sat_log (LogText (''Invalid number of parameters for position command! ['' @ msg @ '']'')) s))"

text \<open>The outer \<^verbatim>\<open>try\<close> block of \<^verbatim>\<open>__listenCallback\<close>.\<close>

definition sat_listen_body :: "string \<Rightarrow> sat_state \<Rightarrow> unit res \<times> sat_state" where
  "sat_listen_body msg s =
     (if length msg = 0 then (Ok (), s)
      else
       (case split_ws msg of
          [] \<Rightarrow> (Raise IndexError, s)
        | code # rest \<Rightarrow>
            if code = ''p'' then
              (Ok (), sat_enqueue (''getPos'', [IntV (azimuth s), IntV (elevation s), QueueV]) s)
            else if code = ''P'' then sat_set_pos msg (code # rest) s
            else if code = ''S'' then (Ok (), sat_send ''RPRT 0\<newline>'' s)
            else if code = ''q'' then
              (Ok (), (sat_send ''RPRT 0\<newline>'' (sat_log (LogText ''Request to quit listening'') s))
                        \<lparr>sat_restart := True\<rparr>)
            else if code = ''x'' then
              (Ok (), (sat_log (LogText ''Antenna listner requested exit!'') s)\<lparr>sat_restart := True\<rparr>)
            else
              (Ok (), sat_send ''RPRT 0\<newline>''
                 (sat_log (LogText (''Unknown command from satellite program! ['' @ msg @ '']'')) s))))"

text \<open>\<^verbatim>\<open>__listenCallback\<close>: the catch-all handler logs and asks for a restart.\<close>

definition sat_listenCallback :: "string \<Rightarrow> sat_state \<Rightarrow> sat_state" where
  "sat_listenCallback msg s =
     (case sat_listen_body msg s of
        (Ok u, s1) \<Rightarrow> s1
      | (Raise e, s1) \<Rightarrow>
          (sat_log (LogException ''Problem with sat control, error in callback'' e) s1)
            \<lparr>sat_restart := True\<rparr>)"

section \<open>Vocabulary of the properties\<close>

text \<open>
  \<open>coming k s\<close> is what the \<open>k\<close>-th coming \<^verbatim>\<open>recvfrom\<close> on the command
  socket does, \<open>outcome\<close> what \<^verbatim>\<open>__doCommand\<close> makes of it, and \<open>stepped\<close>
  the state after one exchange. A reply is \<open>acked\<close> when it is a decodable
  datagram other than \<^verbatim>\<open>nak\<close>, and \<open>refused\<close> when it is a timeout or the
  datagram \<^verbatim>\<open>nak\<close>; it is \<open>returning\<close> when the exchange returns a pair
  for it. \<open>sent_by s s'\<close> lists the datagrams sent between the
  states \<open>s\<close> and \<open>s'\<close>.
\<close>

definition outcome :: "recv \<Rightarrow> (bool \<times> string) res" where
  "outcome r =
     (case r of
        Timeout \<Rightarrow> Ok (False, ''nak'')
      | Datagram bs \<Rightarrow> if utf8_valid bs then Ok (True, bs) else Raise UnicodeDecodeError
      | SockError \<Rightarrow> Raise OSError)"

definition stepped :: "int \<Rightarrow> string \<Rightarrow> rot_state \<Rightarrow> rot_state" where
  "stepped t cmd s =
     s\<lparr>cmd_timeout := t, trace := trace s @ [Sent cmd], cmd_replies := tl (cmd_replies s)\<rparr>"

definition coming :: "nat \<Rightarrow> rot_state \<Rightarrow> recv" where
  "coming k s = (if k < length (cmd_replies s) then cmd_replies s ! k else Timeout)"

definition acked :: "recv \<Rightarrow> bool" where
  "acked r = (case r of Datagram bs \<Rightarrow> utf8_valid bs \<and> bs \<noteq> ''nak'' | _ \<Rightarrow> False)"

definition refused :: "recv \<Rightarrow> bool" where
  "refused r = (r = Timeout \<or> r = Datagram ''nak'')"

definition returning :: "recv \<Rightarrow> bool" where
  "returning r = (case r of Timeout \<Rightarrow> True | Datagram bs \<Rightarrow> utf8_valid bs | SockError \<Rightarrow> False)"

definition sent_by :: "rot_state \<Rightarrow> rot_state \<Rightarrow> string list" where
  "sent_by s s' = sent_of (new_effects s s')"

section \<open>States used in the examples\<close>

text \<open>A rig interface in transmit mode whose last frequency was 145.8 MHz.\<close>

definition tracking :: rig_state where
  "tracking = (RigIf_init [] [] [])\<lparr>ptt := True, lastFreq := Some ''145800000''\<rparr>"

text \<open>
  A rig interface that handled \<^verbatim>\<open>F abc\<close> while receiving, and was switched
  to transmit by the operator afterwards.
\<close>

definition mistuned :: rig_state where
  "mistuned = manualSetPtt True
     (rig_listenCallback (\<lambda>v. v) (\<lambda>v. v) ''F abc\<newline>'' (RigIf_init [] [] []))"

text \<open>
  A rig interface whose CAT response deque holds the reply to a frequency
  change in front of the reply to a frequency request.
\<close>

definition skewed :: rig_state where
  "skewed = RigIf_init [(True, CAT_FREQ_SET, NoneV), (True, CAT_FREQ_GET, StrV ''145800000'')] [] []"

text \<open>A rotator interface right after construction: offline, nothing known, a silent controller.\<close>

definition idle :: rot_state where
  "idle = RotIf_init [] [] [] Map.empty"

text \<open>The controller was polled with success; it is silent now, or it refuses the next command.\<close>

definition waiting :: rot_state where
  "waiting = idle\<lparr>status := PENDING\<rparr>"

definition refusing :: rot_state where
  "refusing = idle\<lparr>status := PENDING, cmd_replies := [Datagram ''nak'']\<rparr>"

text \<open>An interface that is online, at azimuth 123 and elevation 45.\<close>

definition online :: rot_state where
  "online = idle\<lparr>status := ONLINE, degaz := 123, degel := 45\<rparr>"

text \<open>
  The controller was polled with success, a calibration of 12345 and 6789
  pulses is saved, and the controller acknowledges the next four commands.
\<close>

definition starting :: rot_state where
  "starting =
     (RotIf_init [] [Datagram ''ack'', Datagram ''ack'', Datagram ''ack'', Datagram ''ack''] []
        [''AZ'' \<mapsto> IntV 12345, ''EL'' \<mapsto> IntV 6789])\<lparr>status := PENDING\<rparr>"

text \<open>
  An interface that is online and has not moved yet, as a cold start from a
  saved calibration leaves it: both positions are unknown. The controller
  acknowledges the next four commands.
\<close>

definition homing :: rot_state where
  "homing = idle\<lparr>status := ONLINE,
      cmd_replies := [Datagram ''ack'', Datagram ''ack'', Datagram ''ack'', Datagram ''ack'']\<rparr>"

text \<open>
  Two interfaces that are online at azimuth 123: the first knows its
  elevation, and its controller answers the next command with a byte that is
  no UTF-8; the second does not know its elevation, and its controller is
  silent.
\<close>

definition garbled :: rot_state where
  "garbled = online\<lparr>cmd_replies := [Datagram [CHR 0xFF]]\<rparr>"

definition unhomed :: rot_state where
  "unhomed = online\<lparr>degel := - 1\<rparr>"

section \<open>Helper lemmas\<close>

lemma rig_params_Nil: "rig_params [] = []"
  by (simp add: rig_params_def rstrip_nl_def)

lemma rig_body_F:
  assumes "rig_params msg = [''F'', hz]"
  shows "rig_listen_body mf bw msg s = rig_set_freq (Some hz) s"
proof -
  have ne: "msg \<noteq> []" using assms rig_params_Nil by auto
  show ?thesis using assms ne by (simp add: rig_listen_body_def)
qed

lemma doCommand_fst:
  "fst (doCommand cmd s) =
     (case next_recv s of
        Timeout \<Rightarrow> Ok (False, ''nak'')
      | Datagram bs \<Rightarrow> if utf8_valid bs then Ok (True, bs) else Raise UnicodeDecodeError
      | SockError \<Rightarrow> Raise OSError)"
  by (simp add: doCommand_def decode_utf8_def Let_def split: recv.splits)

lemma doCommand_snd:
  "snd (doCommand cmd s) = s\<lparr>trace := trace s @ [Sent cmd], cmd_replies := tl (cmd_replies s)\<rparr>"
  by (simp add: doCommand_def emit_def decode_utf8_def Let_def split: recv.splits)

lemma exchange_fst:
  "fst (exchange t cmd s) =
     (case next_recv s of
        Timeout \<Rightarrow> Ok (False, ''nak'')
      | Datagram bs \<Rightarrow> if utf8_valid bs then Ok (True, bs) else Raise UnicodeDecodeError
      | SockError \<Rightarrow> Raise OSError)"
  by (simp add: exchange_def doCommand_fst next_recv_def)

lemma exchange_snd:
  "snd (exchange t cmd s) =
     s\<lparr>cmd_timeout := t, trace := trace s @ [Sent cmd], cmd_replies := tl (cmd_replies s)\<rparr>"
  by (simp add: exchange_def doCommand_snd)

lemma new_effects_append:
  "trace s' = trace s @ es \<Longrightarrow> new_effects s s' = es"
  by (simp add: new_effects_def)

lemma homeAz_Ok:
  assumes "status s \<noteq> OFFLINE" and "homeAz s = (Ok r, s')"
  shows "degaz s' = 0 \<and> trace s' = trace s @ [Sent ''homeaz'', SetDegAz 0, PosCb ''az'' 0]"
proof (cases "exchange MOV_TIMEOUT ''homeaz'' s")
  case (Pair x s1)
  have s1: "s1 = s\<lparr>cmd_timeout := MOV_TIMEOUT, trace := trace s @ [Sent ''homeaz''],
                   cmd_replies := tl (cmd_replies s)\<rparr>"
    using exchange_snd [of MOV_TIMEOUT "''homeaz''" s] Pair by simp
  show ?thesis
  proof (cases x)
    case (Ok r0)
    with assms Pair s1 show ?thesis by (auto simp add: homeAz_def emit_def)
  next
    case (Raise e)
    with assms Pair show ?thesis by (simp add: homeAz_def)
  qed
qed

lemma homeEl_Ok:
  assumes "status s \<noteq> OFFLINE" and "homeEl s = (Ok r, s')"
  shows "degel s' = 0 \<and> trace s' = trace s @ [Sent ''homeel'', SetDegEl 0, PosCb ''el'' 0]"
proof (cases "exchange MOV_TIMEOUT ''homeel'' s")
  case (Pair x s1)
  have s1: "s1 = s\<lparr>cmd_timeout := MOV_TIMEOUT, trace := trace s @ [Sent ''homeel''],
                   cmd_replies := tl (cmd_replies s)\<rparr>"
    using exchange_snd [of MOV_TIMEOUT "''homeel''" s] Pair by simp
  show ?thesis
  proof (cases x)
    case (Ok r0)
    with assms Pair s1 show ?thesis by (auto simp add: homeEl_def emit_def)
  next
    case (Raise e)
    with assms Pair show ?thesis by (simp add: homeEl_def)
  qed
qed

lemma homeAz_fst:
  "status s \<noteq> OFFLINE \<Longrightarrow> fst (homeAz s) = fst (exchange MOV_TIMEOUT ''homeaz'' s)"
  by (cases "exchange MOV_TIMEOUT ''homeaz'' s") (simp add: homeAz_def split: res.splits)

lemma homeEl_fst:
  "status s \<noteq> OFFLINE \<Longrightarrow> fst (homeEl s) = fst (exchange MOV_TIMEOUT ''homeel'' s)"
  by (cases "exchange MOV_TIMEOUT ''homeel'' s") (simp add: homeEl_def split: res.splits)

text \<open>
  An integer below \<open>2 ^ 53\<close> in absolute value is a double, and \<^verbatim>\<open>%f\<close> prints
  it with six zeros.
\<close>

lemma bit_length_bounds:
  "0 < n \<Longrightarrow> 2 ^ nat (bit_length n - 1) \<le> n \<and> n < 2 ^ nat (bit_length n) \<and> 0 < bit_length n"
proof (induction n rule: bit_length.induct)
  case (1 n)
  show ?case
  proof (cases "n = 1")
    case True
    then show ?thesis by (simp add: bit_length.simps [of 1] bit_length.simps [of 0])
  next
    case False
    with "1.prems" have h: "0 < n div 2" by simp
    have ih: "2 ^ nat (bit_length (n div 2) - 1) \<le> n div 2 \<and> n div 2 < 2 ^ nat (bit_length (n div 2)) \<and> 0 < bit_length (n div 2)"
      using "1.IH" "1.prems" h by simp
    have b: "bit_length n = 1 + bit_length (n div 2)"
      using "1.prems" by (subst bit_length.simps) simp
    have e1: "nat (bit_length n - 1) = Suc (nat (bit_length (n div 2) - 1))"
      using b ih by (simp add: Suc_nat_eq_nat_zadd1)
    have e2: "nat (bit_length n) = Suc (nat (bit_length (n div 2)))"
      using b ih by (simp add: Suc_nat_eq_nat_zadd1 add.commute)
    have lo: "2 * 2 ^ nat (bit_length (n div 2) - 1) \<le> n"
      using ih by linarith
    have hi: "n < 2 * 2 ^ nat (bit_length (n div 2))"
      using ih by linarith
    show ?thesis
      unfolding e1 e2 using lo hi b ih by simp
  qed
qed



lemma bit_length_one: "bit_length 1 = 1"
  by (simp add: bit_length.simps [of 1] bit_length.simps [of 0])

lemma bit_length_le:
  assumes "0 < n" and "n < 2 ^ k"
  shows "bit_length n \<le> int k"
proof -
  have "(2::int) ^ nat (bit_length n - 1) < 2 ^ k"
    using bit_length_bounds [OF assms(1)] assms(2) by linarith
  then have "nat (bit_length n - 1) < k" by simp
  then show ?thesis by linarith
qed

lemma floor_log2_int:
  assumes "0 < n"
  shows "floor_log2 (of_int n) = bit_length n - 1"
proof -
  have b: "0 < bit_length n" "2 ^ nat (bit_length n - 1) \<le> n"
    using bit_length_bounds [OF assms] by simp_all
  have "(of_int (2 ^ nat (bit_length n - 1)) :: rat) \<le> of_int n"
    using b(2) by (simp only: of_int_le_iff)
  then have "pow2 (bit_length n - 1) \<le> of_int n"
    using b(1) by (simp add: pow2_def)
  then show ?thesis
    by (simp add: floor_log2_def bit_length_one Let_def)
qed

lemma round_half_even_int: "round_half_even (of_int m) = m"
  by (simp add: round_half_even_def)

lemma to_double_pos_int:
  assumes "0 < n" and "n < 2 ^ 53"
  shows "to_double (of_int n) = Fin (of_int n)" and "to_double (- of_int n) = Fin (- of_int n)"
proof -
  define k where "k = bit_length n - 1"
  have k: "0 \<le> k" "k \<le> 52"
    using bit_length_bounds [OF assms(1)] bit_length_le [OF assms] by (simp_all add: k_def)
  have fl: "floor_log2 (of_int n) = k"
    using floor_log2_int [OF assms(1)] by (simp add: k_def)
  have t: "max (k - 52) (- 1074) = k - 52" using k by simp
  define j where "j = nat (52 - k)"
  have p: "pow2 (k - 52) = 1 / 2 ^ j"
    using k by (cases "k = 52") (simp_all add: pow2_def j_def)
  have q: "(of_int n :: rat) / (1 / 2 ^ j) = of_int (n * 2 ^ j)" by simp
  have v: "(of_int (n * 2 ^ j) :: rat) * (1 / 2 ^ j) = of_int n" by simp
  have n0: "(of_int n :: rat) \<noteq> 0" "(0::rat) < of_int n" "\<bar>of_int n :: rat\<bar> = of_int n"
    using assms(1) by simp_all
  have big: "\<not> 1024 \<le> k" using k by simp
  show "to_double (of_int n) = Fin (of_int n)"
    unfolding to_double_def Let_def n0(3) fl t p q round_half_even_int v
    using n0 big by (simp add: fl)
  have m0: "(- of_int n :: rat) \<noteq> 0" "\<not> (0::rat) < - of_int n" "\<bar>- of_int n :: rat\<bar> = of_int n"
    using assms(1) by simp_all
  show "to_double (- of_int n) = Fin (- of_int n)"
    unfolding to_double_def Let_def m0(3) fl t p q round_half_even_int v
    using m0 big by (simp add: fl)
qed

lemma float_of_int_exact:
  assumes "\<bar>n\<bar> < 2 ^ 53"
  shows "float_of_int n = Ok (Fin (of_int n))"
proof -
  consider "n = 0" | "0 < n" | "n < 0" by linarith
  then show ?thesis
  proof cases
    case 1
    then show ?thesis by (simp add: float_of_int_def to_double_def)
  next
    case 2
    with assms have "n < 2 ^ 53" by simp
    from to_double_pos_int(1) [OF 2 this] show ?thesis by (simp add: float_of_int_def)
  next
    case 3
    with assms have a: "0 < - n" "- n < 2 ^ 53" by simp_all
    from to_double_pos_int(2) [OF a] show ?thesis by (simp add: float_of_int_def)
  qed
qed

lemma digits_zero: "digits 0 = ''0''"
  by (simp add: digits.simps [of 0] digit_char_def)

lemma fmt_f_int: "fmt_f (Fin (of_int n)) = str_int n @ ''.000000''"
proof -
  have a: "\<bar>of_int n :: rat\<bar> * 1000000 = of_int (\<bar>n\<bar> * 1000000)" by simp
  have r: "round_half_even (\<bar>of_int n :: rat\<bar> * 1000000) = \<bar>n\<bar> * 1000000"
    unfolding a by (rule round_half_even_int)
  have f: "fmt_f (Fin (of_int n)) =
      (if n < 0 then ''-'' else '''') @ digits \<bar>n\<bar> @ ''.000000''"
    by (simp only: fmt_f.simps Let_def r) (simp add: digits_zero pad6_def eval_nat_numeral)
  show ?thesis
  proof (cases "n < 0")
    case True
    then have "\<bar>n\<bar> = - n" by simp
    with True f show ?thesis by (simp add: str_int_def)
  next
    case False
    then have "\<bar>n\<bar> = n" by simp
    with False f show ?thesis by (simp add: str_int_def)
  qed
qed

text \<open>The steps of \<^verbatim>\<open>coldStart\<close>, one exchange after the other.\<close>

lemma exchange_pair: "exchange t cmd s = (outcome (coming 0 s), stepped t cmd s)"
proof -
  have "next_recv s = coming 0 s"
    by (cases "cmd_replies s") (simp_all add: next_recv_def coming_def)
  then show ?thesis
    by (simp add: prod_eq_iff exchange_fst exchange_snd outcome_def stepped_def)
qed

lemma coming_stepped [simp]: "coming k (stepped t cmd s) = coming (Suc k) s"
  by (cases "cmd_replies s") (simp_all add: coming_def stepped_def)

lemma stepped_fields [simp]:
  "status (stepped t cmd s) = status s"
  "config_cal (stepped t cmd s) = config_cal s"
  "trace (stepped t cmd s) = trace s @ [Sent cmd]"
  "degaz (stepped t cmd s) = degaz s"
  "degel (stepped t cmd s) = degel s"
  by (simp_all add: stepped_def)

lemma outcome_refused: "refused r \<Longrightarrow> outcome r = Ok (r \<noteq> Timeout, ''nak'')"
  by (auto simp add: refused_def outcome_def)

lemma outcome_acked: "acked r \<Longrightarrow> \<exists>d. outcome r = Ok (True, d) \<and> d \<noteq> ''nak''"
  by (auto simp add: acked_def outcome_def split: recv.splits)

lemma sent_of_append [simp]: "sent_of (xs @ ys) = sent_of xs @ sent_of ys"
  by (induction xs rule: sent_of.induct) simp_all

lemma sent_by_trace: "trace s' = trace s @ es \<Longrightarrow> sent_by s s' = sent_of es"
  by (simp add: sent_by_def new_effects_def)

lemma speed_cmds:
  "py_str (IntV 30) @ ''n'' = ''30n''"
  "py_str (IntV 20) @ ''m'' = ''20m''"
  by (simp_all add: py_str_def str_int_def digits.simps digit_char_def)

lemma coldStart_offline: "status s = OFFLINE \<Longrightarrow> coldStart s = (Ok True, s)"
  by (simp add: coldStart_def)

lemma coldStart_az_refused:
  assumes "status s \<noteq> OFFLINE" and "refused (coming 0 s)"
  shows "fst (coldStart s) = Ok False \<and> status (snd (coldStart s)) = CAL_FAILED
       \<and> trace (snd (coldStart s)) = trace s @ [Sent ''30n'', StateCb CAL_FAILED]"
  using assms(1) outcome_refused [OF assms(2)]
  by (simp add: coldStart_def setAzSpeed_def exchange_pair speed_cmds cal_failed_def rot_log_def
      emit_def)

lemma coldStart_el_refused:
  assumes "status s \<noteq> OFFLINE" and "acked (coming 0 s)" and "refused (coming 1 s)"
  shows "fst (coldStart s) = Ok False \<and> status (snd (coldStart s)) = CAL_FAILED
       \<and> trace (snd (coldStart s)) = trace s @ [Sent ''30n'', Sent ''20m'', StateCb CAL_FAILED]"
proof -
  obtain d where d: "outcome (coming 0 s) = Ok (True, d)" "d \<noteq> ''nak''"
    using outcome_acked [OF assms(2)] by blast
  show ?thesis
    using assms(1) d outcome_refused [OF assms(3)]
    by (simp add: coldStart_def setAzSpeed_def setElSpeed_def exchange_pair speed_cmds
        cal_failed_def rot_log_def emit_def)
qed



lemma coldStart_preset_online:
  assumes "status s \<noteq> OFFLINE"
    and "config_cal s ''AZ'' = Some az" and "config_cal s ''EL'' = Some el"
    and "acked (coming 0 s)" and "acked (coming 1 s)" and "acked (coming 2 s)" and "acked (coming 3 s)"
  shows "fst (coldStart s) = Ok True \<and> status (snd (coldStart s)) = ONLINE
       \<and> trace (snd (coldStart s)) = trace s @
            [Sent ''30n'', Sent ''20m'', Sent (py_str az @ ''a''), Sent (py_str el @ ''b''),
             StateCb ONLINE]"
proof -
  obtain d0 where d0: "outcome (coming 0 s) = Ok (True, d0)" "d0 \<noteq> ''nak''"
    using outcome_acked [OF assms(4)] by blast
  obtain d1 where d1: "outcome (coming 1 s) = Ok (True, d1)" "d1 \<noteq> ''nak''"
    using outcome_acked [OF assms(5)] by blast
  obtain d2 where d2: "outcome (coming 2 s) = Ok (True, d2)" "d2 \<noteq> ''nak''"
    using outcome_acked [OF assms(6)] by blast
  obtain d3 where d3: "outcome (coming 3 s) = Ok (True, d3)" "d3 \<noteq> ''nak''"
    using outcome_acked [OF assms(7)] by blast
  show ?thesis
    using assms(1-3) d0 d1 d2 d3
    by (simp add: coldStart_def setAzSpeed_def setElSpeed_def load_calibration_def setCalAz_def
        setCalEl_def exchange_pair speed_cmds go_online_def emit_def eval_nat_numeral)
qed

lemma coming_updates [simp]:
  "coming k (s\<lparr>trace := tr\<rparr>) = coming k s"
  "coming k (s\<lparr>degaz := n\<rparr>) = coming k s"
  "coming k (s\<lparr>degel := n\<rparr>) = coming k s"
  "coming k (s\<lparr>calaz := v\<rparr>) = coming k s"
  "coming k (s\<lparr>calel := v\<rparr>) = coming k s"
  "coming k (s\<lparr>status := st\<rparr>) = coming k s"
  "coming k (s\<lparr>rot_msgq := ms\<rparr>) = coming k s"
  by (simp_all add: coming_def)



lemma coldStart_calibrate_online:
  assumes "status s \<noteq> OFFLINE"
    and "config_cal s ''AZ'' = None \<or> config_cal s ''EL'' = None"
    and "acked (coming 0 s)" and "acked (coming 1 s)" and "acked (coming 2 s)" and "acked (coming 3 s)"
  shows "fst (coldStart s) = Ok True \<and> status (snd (coldStart s)) = ONLINE
       \<and> trace (snd (coldStart s)) = trace s @
            [Sent ''30n'', Sent ''20m'', Sent ''calaz'', SetDegAz 0, Sent ''calel'', SetDegEl 0,
             StateCb ONLINE]"
proof -
  obtain d0 where d0: "outcome (coming 0 s) = Ok (True, d0)" "d0 \<noteq> ''nak''"
    using outcome_acked [OF assms(3)] by blast
  obtain d1 where d1: "outcome (coming 1 s) = Ok (True, d1)" "d1 \<noteq> ''nak''"
    using outcome_acked [OF assms(4)] by blast
  obtain d2 where d2: "outcome (coming 2 s) = Ok (True, d2)" "d2 \<noteq> ''nak''"
    using outcome_acked [OF assms(5)] by blast
  obtain d3 where d3: "outcome (coming 3 s) = Ok (True, d3)" "d3 \<noteq> ''nak''"
    using outcome_acked [OF assms(6)] by blast
  have c: "(config_cal s ''AZ'' \<noteq> None \<and> config_cal s ''EL'' \<noteq> None) = False"
    using assms(2) by auto
  have "coldStart s = run_calibration (stepped HW_TIMEOUT ''20m'' (stepped HW_TIMEOUT ''30n'' s))"
    using assms(1) d0 d1
    by (simp add: coldStart_def setAzSpeed_def setElSpeed_def exchange_pair speed_cmds c
        del: not_None_eq)
  then show ?thesis
    using d2 d3
    by (simp add: run_calibration_def calibrateAz_def calibrateEl_def exchange_pair
        go_online_def emit_def eval_nat_numeral)
qed



lemma sent_by_self [simp]: "sent_by s s = []"
  by (simp add: sent_by_def new_effects_def)

lemma coldStart_preset_sends:
  assumes "config_cal s ''AZ'' = Some az" and "config_cal s ''EL'' = Some el"
  shows "set (sent_by s (snd (coldStart s)))
           \<subseteq> {''30n'', ''20m'', py_str az @ ''a'', py_str el @ ''b''}"
proof (cases "status s = OFFLINE")
  case True
  then show ?thesis by (simp add: coldStart_offline)
next
  case False
  then show ?thesis
    using assms
    by (auto simp add: coldStart_def setAzSpeed_def setElSpeed_def load_calibration_def
        setCalAz_def setCalEl_def exchange_pair speed_cmds go_online_def cal_failed_def
        rot_log_def emit_def sent_by_def new_effects_def
        split: res.splits prod.splits if_splits)
qed

lemma preset_not_calibrate:
  "v @ ''a'' \<noteq> ''calaz''" "v @ ''a'' \<noteq> ''calel''" "v @ ''b'' \<noteq> ''calaz''" "v @ ''b'' \<noteq> ''calel''"
proof -
  have e: "xs @ [x] = ys @ [y] \<Longrightarrow> x = y" for xs ys :: string and x y by simp
  show "v @ ''a'' \<noteq> ''calaz''" using e [of v "CHR ''a''" "''cala''" "CHR ''z''"] by auto
  show "v @ ''a'' \<noteq> ''calel''" using e [of v "CHR ''a''" "''cale''" "CHR ''l''"] by auto
  show "v @ ''b'' \<noteq> ''calaz''" using e [of v "CHR ''b''" "''cala''" "CHR ''z''"] by auto
  show "v @ ''b'' \<noteq> ''calel''" using e [of v "CHR ''b''" "''cale''" "CHR ''l''"] by auto
qed

text \<open>The \<^verbatim>\<open>P\<close> command and the two queued moves.\<close>

lemma sat_body_P:
  assumes "split_ws msg = [''P'', a, b]"
  shows "sat_listen_body msg s = sat_set_pos msg [''P'', a, b] s"
proof -
  have "msg \<noteq> []" using assms by (auto simp add: split_ws_def)
  then show ?thesis using assms by (simp add: sat_listen_body_def)
qed

lemma int_float_Fin: "py_float t = Some (Fin x) \<Longrightarrow> int_float t = Ok (py_trunc x)"
  by (simp add: int_float_def)

lemma outcome_returning: "returning r \<Longrightarrow> \<exists>p. outcome r = Ok p"
  by (auto simp add: returning_def outcome_def split: recv.splits)

lemma run_item_setPosAz:
  assumes "status r \<noteq> OFFLINE" and "degaz r \<noteq> - 1" and "returning (coming 0 r)"
  shows "run_item (''setPosAz'', [IntV a]) r = (Ok (), stepped MOV_TIMEOUT (str_int a @ ''z'') r)"
proof -
  obtain p where p: "outcome (coming 0 r) = Ok p"
    using outcome_returning [OF assms(3)] by blast
  show ?thesis
    using assms(1,2) p
    by (simp add: run_item_def lookup_names_def call_with_args_def truthy_def setPosAz_def
        move_to_def exchange_pair py_str_def)
qed

lemma run_item_setPosEl_trace:
  assumes "status r \<noteq> OFFLINE" and "degel r \<noteq> - 1"
  shows "trace (snd (run_item (''setPosEl'', [IntV e]) r)) = trace r @ [Sent (str_int e @ ''e'')]"
  using assms
  by (simp add: run_item_def lookup_names_def call_with_args_def truthy_def setPosEl_def
      move_to_def exchange_pair py_str_def split: res.splits prod.splits)

lemma emit_fields [simp]:
  "status (emit es s) = status s"
  "degaz (emit es s) = degaz s"
  "degel (emit es s) = degel s"
  "trace (emit es s) = trace s @ es"
  "coming k (emit es s) = coming k s"
  by (simp_all add: emit_def)

lemma run_item_setPosAz_home:
  assumes "status r \<noteq> OFFLINE" and "degaz r = - 1" and "acked (coming 0 r)"
    and "returning (coming 1 r)"
  shows "\<exists>r'. run_item (''setPosAz'', [IntV a]) r = (Ok (), r')
           \<and> status r' = status r \<and> degel r' = degel r
           \<and> trace r' = trace r @ [Sent ''homeaz'', SetDegAz 0, PosCb ''az'' 0, SetDegAz 0,
                                     Sent (str_int a @ ''z'')]
           \<and> (\<forall>k. coming k r' = coming (k + 2) r)"
proof -
  obtain d where d: "outcome (coming 0 r) = Ok (True, d)" "d \<noteq> ''nak''"
    using outcome_acked [OF assms(3)] by blast
  have "returning (coming (Suc 0) r)" using assms(4) by simp
  then obtain p where p: "outcome (coming (Suc 0) r) = Ok p"
    using outcome_returning by blast
  show ?thesis
    using assms(1,2) d p
    by (simp add: run_item_def lookup_names_def call_with_args_def truthy_def setPosAz_def
        homeAz_def move_to_def exchange_pair py_str_def)
qed

lemma run_item_setPosAz_any:
  assumes "status r \<noteq> OFFLINE" and "degaz r = - 1 \<longrightarrow> acked (coming 0 r)"
    and "returning (coming (if degaz r = - 1 then 1 else 0) r)"
  shows "\<exists>r' es. run_item (''setPosAz'', [IntV a]) r = (Ok (), r')
           \<and> status r' = status r \<and> degel r' = degel r
           \<and> trace r' = trace r @ es
           \<and> sent_of es = (if degaz r = - 1 then [''homeaz''] else []) @ [str_int a @ ''z'']
           \<and> (\<forall>k. coming k r' = coming (k + (if degaz r = - 1 then 2 else 1)) r)"
proof (cases "degaz r = - 1")
  case True
  then show ?thesis
    using run_item_setPosAz_home [of r a] assms by auto
next
  case False
  then show ?thesis
    using run_item_setPosAz [of r a] assms by auto
qed

lemma run_item_setPosEl_any:
  assumes "status r \<noteq> OFFLINE" and "degel r = - 1 \<longrightarrow> acked (coming 0 r)"
  shows "\<exists>es. trace (snd (run_item (''setPosEl'', [IntV e]) r)) = trace r @ es
           \<and> sent_of es = (if degel r = - 1 then [''homeel''] else []) @ [str_int e @ ''e'']"
proof (cases "degel r = - 1")
  case True
  then obtain d where d: "outcome (coming 0 r) = Ok (True, d)" "d \<noteq> ''nak''"
    using outcome_acked assms(2) by blast
  show ?thesis
    using assms(1) True d
    by (simp add: run_item_def lookup_names_def call_with_args_def truthy_def setPosEl_def
        homeEl_def move_to_def exchange_pair py_str_def split: res.splits prod.splits)
next
  case False
  then show ?thesis
    using run_item_setPosEl_trace [of r e] assms(1) by simp
qed

section \<open>The rig protocol server\<close>

text \<open>
  C1, as the code has it. An \<^verbatim>\<open>F <hz>\<close> line handled while the PTT intent is
  set: in every case the handler first passes \<^verbatim>\<open>CAT_FREQ_SET\<close> with the
  frequency to the CAT object, appends \<^verbatim>\<open>RPRT 0\<close> to the send queue and calls
  the frequency callback. When \<^verbatim>\<open><hz>\<close> is an integer literal and the last
  frequency on record is one, it then sends \<^verbatim>\<open>CAT_PTT_SET(True)\<close> and sets
  \<^verbatim>\<open>__rigPtt\<close> exactly when the new frequency differs from the last one by
  more than 100000 Hz, and it records the new frequency as the last one.
\<close>

theorem rig_F_ptt_crossover:
  assumes "rig_params msg = [''F'', hz]" and "ptt s"
  shows "take (Suc (length (cat_calls s))) (cat_calls (rig_listenCallback mf bw msg s))
           = cat_calls s @ [(CAT_FREQ_SET, [StrV hz])]
   \<and> rig_sendq (rig_listenCallback mf bw msg s) = rig_sendq s @ [''RPRT 0\<newline>'']
   \<and> freq_calls (rig_listenCallback mf bw msg s) = freq_calls s @ [(True, hz)]
   \<and> (py_int hz = Some n \<and> lastFreq s = Some l \<and> py_int l = Some m \<longrightarrow>
        rig_listenCallback mf bw msg s =
          s\<lparr>cat_calls := cat_calls s @ (CAT_FREQ_SET, [StrV hz])
                 # (if 100000 < \<bar>n - m\<bar> then [(CAT_PTT_SET, [BoolV True])] else []),
            rig_sendq := rig_sendq s @ [''RPRT 0\<newline>''],
            freq_calls := freq_calls s @ [(True, hz)],
            rigPtt := (100000 < \<bar>n - m\<bar> \<or> rigPtt s),
            lastFreq := Some hz\<rparr>)"
proof -
  have b: "rig_listenCallback mf bw msg s =
     (case rig_set_freq (Some hz) s of
        (Ok u, s1) \<Rightarrow> s1
      | (Raise e, s1) \<Rightarrow>
          (rig_log (LogException ''Problem with rig interface, error in callback'' e) s1)
            \<lparr>rig_restart := True\<rparr>)"
    by (simp add: rig_listenCallback_def rig_body_F [OF assms(1)])
  have 1: "take (Suc (length (cat_calls s))) (cat_calls (rig_listenCallback mf bw msg s))
           = cat_calls s @ [(CAT_FREQ_SET, [StrV hz])]"
    unfolding b using assms(2)
    by (simp add: rig_set_freq_def do_command_def rig_send_def rig_log_def Let_def
        split: option.splits)
  have 2: "rig_sendq (rig_listenCallback mf bw msg s) = rig_sendq s @ [''RPRT 0\<newline>'']"
    unfolding b using assms(2)
    by (simp add: rig_set_freq_def do_command_def rig_send_def rig_log_def Let_def
        split: option.splits)
  have 3: "freq_calls (rig_listenCallback mf bw msg s) = freq_calls s @ [(True, hz)]"
    unfolding b using assms(2)
    by (simp add: rig_set_freq_def do_command_def rig_send_def rig_log_def Let_def
        split: option.splits)
  have 4: "rig_listenCallback mf bw msg s =
          s\<lparr>cat_calls := cat_calls s @ (CAT_FREQ_SET, [StrV hz])
                 # (if 100000 < \<bar>n - m\<bar> then [(CAT_PTT_SET, [BoolV True])] else []),
            rig_sendq := rig_sendq s @ [''RPRT 0\<newline>''],
            freq_calls := freq_calls s @ [(True, hz)],
            rigPtt := (100000 < \<bar>n - m\<bar> \<or> rigPtt s),
            lastFreq := Some hz\<rparr>"
    if "py_int hz = Some n \<and> lastFreq s = Some l \<and> py_int l = Some m"
    unfolding b using assms(2) that
    by (simp add: rig_set_freq_def do_command_def rig_send_def)
  show ?thesis using 1 2 3 4 by blast
qed

text \<open>
  The boundary: from 145800000 Hz, a step of exactly 100000 Hz does not key the
  transmitter, a step of 100001 Hz does.
\<close>

theorem rig_F_ptt_crossover_witness:
  "rig_listenCallback (\<lambda>v. v) (\<lambda>v. v) ''F 145900000\<newline>'' tracking =
     tracking\<lparr>cat_calls := [(CAT_FREQ_SET, [StrV ''145900000''])],
       rig_sendq := [''RPRT 0\<newline>''], freq_calls := [(True, ''145900000'')],
       rigPtt := False, lastFreq := Some ''145900000''\<rparr>
   \<and> rig_listenCallback (\<lambda>v. v) (\<lambda>v. v) ''F 145900001\<newline>'' tracking =
     tracking\<lparr>cat_calls := [(CAT_FREQ_SET, [StrV ''145900001'']), (CAT_PTT_SET, [BoolV True])],
       rig_sendq := [''RPRT 0\<newline>''], freq_calls := [(True, ''145900001'')],
       rigPtt := True, lastFreq := Some ''145900001''\<rparr>"
proof -
  have t: "ptt tracking" "lastFreq tracking = Some ''145800000''"
    by (simp_all add: tracking_def RigIf_init_def)
  have l: "py_int ''145800000'' = Some 145800000" by code_simp
  have p0: "rig_params ''F 145900000\<newline>'' = [''F'', ''145900000'']"
    by (simp add: rig_params_def rstrip_nl_def)
  have p1: "rig_params ''F 145900001\<newline>'' = [''F'', ''145900001'']"
    by (simp add: rig_params_def rstrip_nl_def)
  have n0: "py_int ''145900000'' = Some 145900000" by code_simp
  have n1: "py_int ''145900001'' = Some 145900001" by code_simp
  have i0: "rig_listenCallback (\<lambda>v. v) (\<lambda>v. v) ''F 145900000\<newline>'' tracking =
     tracking\<lparr>cat_calls := cat_calls tracking @ (CAT_FREQ_SET, [StrV ''145900000''])
            # (if (100000::int) < \<bar>145900000 - 145800000\<bar> then [(CAT_PTT_SET, [BoolV True])] else []),
       rig_sendq := rig_sendq tracking @ [''RPRT 0\<newline>''],
       freq_calls := freq_calls tracking @ [(True, ''145900000'')],
       rigPtt := ((100000::int) < \<bar>145900000 - 145800000\<bar> \<or> rigPtt tracking),
       lastFreq := Some ''145900000''\<rparr>"
    using rig_F_ptt_crossover [OF p0 t(1), of "\<lambda>v. v" "\<lambda>v. v" 145900000 "''145800000''" 145800000]
      n0 t(2) l by blast
  have i1: "rig_listenCallback (\<lambda>v. v) (\<lambda>v. v) ''F 145900001\<newline>'' tracking =
     tracking\<lparr>cat_calls := cat_calls tracking @ (CAT_FREQ_SET, [StrV ''145900001''])
            # (if (100000::int) < \<bar>145900001 - 145800000\<bar> then [(CAT_PTT_SET, [BoolV True])] else []),
       rig_sendq := rig_sendq tracking @ [''RPRT 0\<newline>''],
       freq_calls := freq_calls tracking @ [(True, ''145900001'')],
       rigPtt := ((100000::int) < \<bar>145900001 - 145800000\<bar> \<or> rigPtt tracking),
       lastFreq := Some ''145900001''\<rparr>"
    using rig_F_ptt_crossover [OF p1 t(1), of "\<lambda>v. v" "\<lambda>v. v" 145900001 "''145800000''" 145800000]
      n1 t(2) l by blast
  have r: "rigPtt tracking = False" "cat_calls tracking = []" "rig_sendq tracking = []"
    "freq_calls tracking = []"
    by (simp_all add: tracking_def RigIf_init_def)
  show ?thesis
    unfolding i0 i1 r by simp
qed

text \<open>
  C1, as stated, fails: the last frequency is not always updated. On a fresh
  interface switched to transmit no last frequency exists, and the first
  \<^verbatim>\<open>F\<close> line records none. With 145800000 on record, the line
  \<^verbatim>\<open>F 146000000.0\<close> neither keys the transmitter nor replaces the record,
  because \<^verbatim>\<open>146000000.0\<close> is no integer literal. And with the text
  \<^verbatim>\<open>abc\<close> on record, which the handler stored while receiving, the line
  \<^verbatim>\<open>F 145900000\<close> leaves the record as it is.
\<close>

theorem rig_F_crossover_not_always:
  "lastFreq (rig_listenCallback (\<lambda>v. v) (\<lambda>v. v) ''F 435850000\<newline>''
              (manualSetPtt True (RigIf_init [] [] []))) = None
   \<and> ptt tracking \<and> lastFreq tracking = Some ''145800000''
   \<and> rig_listenCallback (\<lambda>v. v) (\<lambda>v. v) ''F 146000000.0\<newline>'' tracking =
       tracking\<lparr>cat_calls := [(CAT_FREQ_SET, [StrV ''146000000.0''])],
         rig_sendq := [''RPRT 0\<newline>''], freq_calls := [(True, ''146000000.0'')],
         rig_msgq := [LogException ''Problem with rig interface, error in callback'' ValueError],
         rig_restart := True\<rparr>
   \<and> ptt mistuned \<and> lastFreq mistuned = Some ''abc''
   \<and> rig_listenCallback (\<lambda>v. v) (\<lambda>v. v) ''F 145900000\<newline>'' mistuned =
       mistuned\<lparr>cat_calls := [(CAT_FREQ_SET, [StrV ''abc'']), (CAT_FREQ_SET, [StrV ''145900000''])],
         rig_sendq := [''RPRT 0\<newline>'', ''RPRT 0\<newline>''],
         freq_calls := [(False, ''abc''), (True, ''145900000'')],
         rig_msgq := [LogException ''Problem with rig interface, error in callback'' ValueError],
         rig_restart := True\<rparr>"
proof -
  have p0: "rig_params ''F 435850000\<newline>'' = [''F'', ''435850000'']"
    by (simp add: rig_params_def rstrip_nl_def)
  have p1: "rig_params ''F 146000000.0\<newline>'' = [''F'', ''146000000.0'']"
    by (simp add: rig_params_def rstrip_nl_def)
  have p2: "rig_params ''F abc\<newline>'' = [''F'', ''abc'']"
    by (simp add: rig_params_def rstrip_nl_def)
  have p3: "rig_params ''F 145900000\<newline>'' = [''F'', ''145900000'']"
    by (simp add: rig_params_def rstrip_nl_def)
  have n0: "py_int ''435850000'' = Some 435850000" by code_simp
  have n1: "py_int ''146000000.0'' = None" by code_simp
  have n2: "py_int ''abc'' = None" by code_simp
  have n3: "py_int ''145900000'' = Some 145900000" by code_simp
  have 1: "lastFreq (rig_listenCallback (\<lambda>v. v) (\<lambda>v. v) ''F 435850000\<newline>''
              (manualSetPtt True (RigIf_init [] [] []))) = None"
    by (simp add: rig_listenCallback_def rig_body_F [OF p0] rig_set_freq_def n0 do_command_def
        rig_send_def rig_log_def manualSetPtt_def RigIf_init_def)
  have 2: "ptt tracking \<and> lastFreq tracking = Some ''145800000''"
    by (simp add: tracking_def RigIf_init_def)
  have 3: "rig_listenCallback (\<lambda>v. v) (\<lambda>v. v) ''F 146000000.0\<newline>'' tracking =
       tracking\<lparr>cat_calls := [(CAT_FREQ_SET, [StrV ''146000000.0''])],
         rig_sendq := [''RPRT 0\<newline>''], freq_calls := [(True, ''146000000.0'')],
         rig_msgq := [LogException ''Problem with rig interface, error in callback'' ValueError],
         rig_restart := True\<rparr>"
    by (simp add: rig_listenCallback_def rig_body_F [OF p1] rig_set_freq_def n1 do_command_def
        rig_send_def rig_log_def tracking_def RigIf_init_def)
  have m: "mistuned = (RigIf_init [] [] [])\<lparr>ptt := True, lastFreq := Some ''abc'',
       cat_calls := [(CAT_FREQ_SET, [StrV ''abc''])], rig_sendq := [''RPRT 0\<newline>''],
       freq_calls := [(False, ''abc'')]\<rparr>"
    by (simp add: mistuned_def rig_listenCallback_def rig_body_F [OF p2] rig_set_freq_def
        do_command_def rig_send_def manualSetPtt_def RigIf_init_def)
  have 4: "ptt mistuned \<and> lastFreq mistuned = Some ''abc''"
    by (simp add: m)
  have 5: "rig_listenCallback (\<lambda>v. v) (\<lambda>v. v) ''F 145900000\<newline>'' mistuned =
       mistuned\<lparr>cat_calls := [(CAT_FREQ_SET, [StrV ''abc'']), (CAT_FREQ_SET, [StrV ''145900000''])],
         rig_sendq := [''RPRT 0\<newline>'', ''RPRT 0\<newline>''],
         freq_calls := [(False, ''abc''), (True, ''145900000'')],
         rig_msgq := [LogException ''Problem with rig interface, error in callback'' ValueError],
         rig_restart := True\<rparr>"
    unfolding m
    by (simp add: rig_listenCallback_def rig_body_F [OF p3] rig_set_freq_def n2 n3 do_command_def
        rig_send_def rig_log_def RigIf_init_def)
  show ?thesis using 1 2 3 4 5 by blast
qed



text \<open>
  C3. The wait for a CAT response on a deque whose head is the reply to another
  operation: the log statement of \<^verbatim>\<open>__cat_response\<close> raises, the catch-all
  handler of the \<^verbatim>\<open>f\<close> command logs and sets the restart flag, the matching
  reply stays unread in the deque and nothing is sent to the tracker. On an
  empty deque that stays empty, the wait ends after 50 sleeps by raising as
  well: it does not return \<^verbatim>\<open>None\<close>.
\<close>

theorem cat_response_skew_raises:
  "rig_listenCallback (\<lambda>v. v) (\<lambda>v. v) ''f\<newline>'' skewed =
     skewed\<lparr>catq := [(True, CAT_FREQ_GET, StrV ''145800000'')],
       cat_calls := [(CAT_FREQ_GET, [])],
       rig_msgq := [LogException ''Problem with rig interface, error in callback'' TypeError],
       rig_restart := True\<rparr>
   \<and> rig_sendq (rig_listenCallback (\<lambda>v. v) (\<lambda>v. v) ''f\<newline>'' skewed) = []
   \<and> cat_response CAT_FREQ_GET (RigIf_init [] [] []) = (Raise TypeError, RigIf_init [] [] [])"
proof -
  have p: "rig_params ''f\<newline>'' = [''f'']"
    by (simp add: rig_params_def rstrip_nl_def)
  have c: "cat_response CAT_FREQ_GET (do_command CAT_FREQ_GET [] skewed) =
      (Raise TypeError, skewed\<lparr>catq := [(True, CAT_FREQ_GET, StrV ''145800000'')],
         cat_calls := [(CAT_FREQ_GET, [])]\<rparr>)"
    by (simp add: cat_response_def cat_response_loop.simps skewed_def RigIf_init_def do_command_def)
  have b: "rig_listen_body (\<lambda>v. v) (\<lambda>v. v) ''f\<newline>'' skewed = rig_get_freq skewed"
    by (simp add: rig_listen_body_def p)
  have 1: "rig_listenCallback (\<lambda>v. v) (\<lambda>v. v) ''f\<newline>'' skewed =
     skewed\<lparr>catq := [(True, CAT_FREQ_GET, StrV ''145800000'')],
       cat_calls := [(CAT_FREQ_GET, [])],
       rig_msgq := [LogException ''Problem with rig interface, error in callback'' TypeError],
       rig_restart := True\<rparr>"
    by (simp add: rig_listenCallback_def b rig_get_freq_def c rig_log_def)
       (simp add: skewed_def RigIf_init_def)
  have 2: "cat_response CAT_FREQ_GET (RigIf_init [] [] []) = (Raise TypeError, RigIf_init [] [] [])"
    by (simp add: cat_response_def cat_response_loop.simps RigIf_init_def cat_sleep_def)
  show ?thesis using 1 2 by (simp add: skewed_def RigIf_init_def)
qed

section \<open>The rotator client\<close>

text \<open>
  C7, as the code has it. One command exchange returns \<^verbatim>\<open>(False, 'nak')\<close>
  exactly when the wait for the reply times out, and \<^verbatim>\<open>(True, d)\<close> exactly
  when a datagram arrives whose bytes are well-formed UTF-8, \<open>d\<close> being its
  text. A datagram that does not decode, or another socket error, makes the
  exchange raise: it returns nothing then.
\<close>

theorem doCommand_results:
  "fst (doCommand cmd s) =
     (case next_recv s of
        Timeout \<Rightarrow> Ok (False, ''nak'')
      | Datagram bs \<Rightarrow> if utf8_valid bs then Ok (True, bs) else Raise UnicodeDecodeError
      | SockError \<Rightarrow> Raise OSError)
   \<and> (fst (doCommand cmd s) = Ok (False, ''nak'') \<longleftrightarrow> next_recv s = Timeout)
   \<and> ((\<exists>d. fst (doCommand cmd s) = Ok (True, d))
        \<longleftrightarrow> (\<exists>bs. next_recv s = Datagram bs \<and> utf8_valid bs))"
  by (auto simp add: doCommand_fst split: recv.splits)

theorem doCommand_results_witness:
  "fst (doCommand ''poll'' idle) = Ok (False, ''nak'')
   \<and> fst (doCommand ''poll'' (idle\<lparr>cmd_replies := [Datagram ''ack'']\<rparr>)) = Ok (True, ''ack'')"
proof -
  have a: "next_recv idle = Timeout"
    by (simp add: idle_def RotIf_init_def next_recv_def)
  have b: "next_recv (idle\<lparr>cmd_replies := [Datagram ''ack'']\<rparr>) = Datagram ''ack''"
    by (simp add: next_recv_def)
  show ?thesis
    using doCommand_results [of "''poll''" idle]
      doCommand_results [of "''poll''" "idle\<lparr>cmd_replies := [Datagram ''ack'']\<rparr>"]
    by (simp add: a b)
qed

text \<open>
  C7, as stated, fails: a reply datagram holding the single byte \<open>0xFF\<close> is no
  timeout, and the exchange returns no pair for it.
\<close>

theorem doCommand_undecodable_raises:
  "next_recv (idle\<lparr>cmd_replies := [Datagram [CHR 0xFF]]\<rparr>) = Datagram [CHR 0xFF]
   \<and> fst (doCommand ''poll'' (idle\<lparr>cmd_replies := [Datagram [CHR 0xFF]]\<rparr>)) = Raise UnicodeDecodeError"
  by (simp add: doCommand_fst next_recv_def)

section \<open>The rotator service\<close>

text \<open>
  C9. When \<^verbatim>\<open>homeAz\<close> (\<^verbatim>\<open>homeEl\<close>) returns and the status was not offline,
  \<^verbatim>\<open>__degaz\<close> (\<^verbatim>\<open>__degel\<close>) is 0 and the position callback has been called
  with the axis and 0, whatever the controller answered; and the method does
  return when the command timed out and when the controller replied
  \<^verbatim>\<open>nak\<close>.
\<close>

theorem home_records_zero:
  assumes "status s \<noteq> OFFLINE"
  shows "(homeAz s = (Ok r, s') \<longrightarrow>
            degaz s' = 0 \<and> new_effects s s' = [Sent ''homeaz'', SetDegAz 0, PosCb ''az'' 0])
       \<and> (homeEl s = (Ok r, s') \<longrightarrow>
            degel s' = 0 \<and> new_effects s s' = [Sent ''homeel'', SetDegEl 0, PosCb ''el'' 0])
       \<and> (next_recv s = Timeout \<longrightarrow>
            fst (homeAz s) = Ok (False, ''nak'') \<and> fst (homeEl s) = Ok (False, ''nak''))
       \<and> (next_recv s = Datagram ''nak'' \<longrightarrow>
            fst (homeAz s) = Ok (True, ''nak'') \<and> fst (homeEl s) = Ok (True, ''nak''))"
proof (intro conjI impI)
  assume h: "homeAz s = (Ok r, s')"
  from homeAz_Ok [OF assms h] show "degaz s' = 0" by simp
  from homeAz_Ok [OF assms h] show "new_effects s s' = [Sent ''homeaz'', SetDegAz 0, PosCb ''az'' 0]"
    by (simp add: new_effects_append)
next
  assume h: "homeEl s = (Ok r, s')"
  from homeEl_Ok [OF assms h] show "degel s' = 0" by simp
  from homeEl_Ok [OF assms h] show "new_effects s s' = [Sent ''homeel'', SetDegEl 0, PosCb ''el'' 0]"
    by (simp add: new_effects_append)
next
  assume "next_recv s = Timeout"
  then show "fst (homeAz s) = Ok (False, ''nak'')" "fst (homeEl s) = Ok (False, ''nak'')"
    using assms by (simp_all add: homeAz_fst homeEl_fst exchange_fst)
next
  assume "next_recv s = Datagram ''nak''"
  then show "fst (homeAz s) = Ok (True, ''nak'')" "fst (homeEl s) = Ok (True, ''nak'')"
    using assms by (simp_all add: homeAz_fst homeEl_fst exchange_fst)
qed


theorem home_records_zero_witness:
  "fst (homeAz waiting) = Ok (False, ''nak'')
   \<and> degaz (snd (homeAz waiting)) = 0
   \<and> new_effects waiting (snd (homeAz waiting)) = [Sent ''homeaz'', SetDegAz 0, PosCb ''az'' 0]
   \<and> fst (homeEl refusing) = Ok (True, ''nak'')
   \<and> degel (snd (homeEl refusing)) = 0
   \<and> new_effects refusing (snd (homeEl refusing)) = [Sent ''homeel'', SetDegEl 0, PosCb ''el'' 0]"
proof -
  have w: "status waiting \<noteq> OFFLINE" "next_recv waiting = Timeout"
    by (simp_all add: waiting_def idle_def RotIf_init_def next_recv_def)
  have r: "status refusing \<noteq> OFFLINE" "next_recv refusing = Datagram ''nak''"
    by (simp_all add: refusing_def idle_def RotIf_init_def next_recv_def)
  note a = home_records_zero [OF w(1), of "(False, ''nak'')" "snd (homeAz waiting)"]
  note e = home_records_zero [OF r(1), of "(True, ''nak'')" "snd (homeEl refusing)"]
  have fa: "fst (homeAz waiting) = Ok (False, ''nak'')" using a w(2) by simp
  have fe: "fst (homeEl refusing) = Ok (True, ''nak'')" using e r(2) by simp
  have pa: "homeAz waiting = (Ok (False, ''nak''), snd (homeAz waiting))"
    using fa by (simp add: prod_eq_iff)
  have pe: "homeEl refusing = (Ok (True, ''nak''), snd (homeEl refusing))"
    using fe by (simp add: prod_eq_iff)
  show ?thesis using a e fa fe pa pe by simp
qed

text \<open>
  C5. A \<^verbatim>\<open>getPos\<close> request with hint values and the reply deque: when the
  status is online the deque receives one string, the current azimuth and
  elevation printed by \<^verbatim>\<open>%f\<close> on two lines; otherwise it receives the hints
  printed the same way. The call returns \<^verbatim>\<open>True\<close> and no other field
  changes. The positions are integers; the bound \<open>2 ^ 53\<close> keeps them exact
  as floats.
\<close>

theorem getPos_reply:
  assumes "\<bar>degaz s\<bar> < 2 ^ 53" and "\<bar>degel s\<bar> < 2 ^ 53"
    and "\<bar>az\<bar> < 2 ^ 53" and "\<bar>el\<bar> < 2 ^ 53"
  shows "getPos [IntV az, IntV el, QueueV] s =
     (Ok True,
      s\<lparr>sinkq := sinkq s @
         [if status s = ONLINE
          then str_int (degaz s) @ ''.000000\<newline>'' @ str_int (degel s) @ ''.000000\<newline>''
          else str_int az @ ''.000000\<newline>'' @ str_int el @ ''.000000\<newline>'']\<rparr>)"
proof (cases "status s = ONLINE")
  case True
  then show ?thesis
    by (simp add: getPos_def float_of_int_exact [OF assms(1)] float_of_int_exact [OF assms(2)]
        pos_text_def fmt_f_int del: fmt_f.simps)
next
  case False
  then show ?thesis
    by (simp add: getPos_def float_of_int_exact [OF assms(3)] float_of_int_exact [OF assms(4)]
        pos_text_def fmt_f_int del: fmt_f.simps)
qed

theorem getPos_reply_witness:
  "getPos [IntV 10, IntV 20, QueueV] online =
     (Ok True, online\<lparr>sinkq := [''123.000000\<newline>45.000000\<newline>'']\<rparr>)
   \<and> getPos [IntV 10, IntV 20, QueueV] idle =
     (Ok True, idle\<lparr>sinkq := [''10.000000\<newline>20.000000\<newline>'']\<rparr>)"
proof -
  have o: "\<bar>degaz online\<bar> < 2 ^ 53" "\<bar>degel online\<bar> < 2 ^ 53" "status online = ONLINE"
    "sinkq online = []" "degaz online = 123" "degel online = 45"
    by (simp_all add: online_def idle_def RotIf_init_def)
  have i: "\<bar>degaz idle\<bar> < 2 ^ 53" "\<bar>degel idle\<bar> < 2 ^ 53" "status idle = OFFLINE"
    "sinkq idle = []"
    by (simp_all add: idle_def RotIf_init_def)
  have h: "\<bar>10 :: int\<bar> < 2 ^ 53" "\<bar>20 :: int\<bar> < 2 ^ 53" by simp_all
  have d: "str_int 123 = ''123''" "str_int 45 = ''45''" "str_int 10 = ''10''" "str_int 20 = ''20''"
    by code_simp+
  show ?thesis
    using getPos_reply [OF o(1) o(2) h] getPos_reply [OF i(1) i(2) h]
    by (simp add: o i d)
qed

text \<open>
  C6. \<^verbatim>\<open>coldStart\<close>: offline, it returns without any action. A timeout or a
  \<^verbatim>\<open>nak\<close> on the azimuth speed, or on the elevation speed after the azimuth
  speed was accepted, sets the status to \<^verbatim>\<open>CAL_FAILED\<close> and ends the start
  with \<^verbatim>\<open>False\<close>, nothing more being sent. With a saved calibration for both
  axes neither \<^verbatim>\<open>calaz\<close> nor \<^verbatim>\<open>calel\<close> is sent, whatever the controller
  answers, and when it acknowledges every step the two saved values are
  preset and the status becomes \<^verbatim>\<open>ONLINE\<close>. Without a saved calibration, and
  every step acknowledged, the two axes are calibrated and the status becomes
  \<^verbatim>\<open>ONLINE\<close> as well.
\<close>

theorem coldStart_behaviour:
  "(status s = OFFLINE \<longrightarrow> coldStart s = (Ok True, s))
   \<and> (status s \<noteq> OFFLINE \<and> refused (coming 0 s) \<longrightarrow>
        fst (coldStart s) = Ok False \<and> status (snd (coldStart s)) = CAL_FAILED
        \<and> sent_by s (snd (coldStart s)) = [''30n''])
   \<and> (status s \<noteq> OFFLINE \<and> acked (coming 0 s) \<and> refused (coming 1 s) \<longrightarrow>
        fst (coldStart s) = Ok False \<and> status (snd (coldStart s)) = CAL_FAILED
        \<and> sent_by s (snd (coldStart s)) = [''30n'', ''20m''])
   \<and> (config_cal s ''AZ'' = Some az \<and> config_cal s ''EL'' = Some el \<longrightarrow>
        ''calaz'' \<notin> set (sent_by s (snd (coldStart s)))
        \<and> ''calel'' \<notin> set (sent_by s (snd (coldStart s))))
   \<and> (status s \<noteq> OFFLINE \<and> config_cal s ''AZ'' = Some az \<and> config_cal s ''EL'' = Some el
        \<and> acked (coming 0 s) \<and> acked (coming 1 s) \<and> acked (coming 2 s) \<and> acked (coming 3 s) \<longrightarrow>
        fst (coldStart s) = Ok True \<and> status (snd (coldStart s)) = ONLINE
        \<and> sent_by s (snd (coldStart s)) = [''30n'', ''20m'', py_str az @ ''a'', py_str el @ ''b''])
   \<and> (status s \<noteq> OFFLINE \<and> (config_cal s ''AZ'' = None \<or> config_cal s ''EL'' = None)
        \<and> acked (coming 0 s) \<and> acked (coming 1 s) \<and> acked (coming 2 s) \<and> acked (coming 3 s) \<longrightarrow>
        fst (coldStart s) = Ok True \<and> status (snd (coldStart s)) = ONLINE
        \<and> sent_by s (snd (coldStart s)) = [''30n'', ''20m'', ''calaz'', ''calel''])"
proof (intro conjI impI)
  assume "status s = OFFLINE"
  then show "coldStart s = (Ok True, s)" by (rule coldStart_offline)
next
  assume a: "status s \<noteq> OFFLINE \<and> refused (coming 0 s)"
  then have r: "fst (coldStart s) = Ok False \<and> status (snd (coldStart s)) = CAL_FAILED
       \<and> trace (snd (coldStart s)) = trace s @ [Sent ''30n'', StateCb CAL_FAILED]"
    using coldStart_az_refused by blast
  from r show "fst (coldStart s) = Ok False" by blast
  from r show "status (snd (coldStart s)) = CAL_FAILED" by blast
  from r show "sent_by s (snd (coldStart s)) = [''30n'']" by (simp add: sent_by_trace)
next
  assume a: "status s \<noteq> OFFLINE \<and> acked (coming 0 s) \<and> refused (coming 1 s)"
  then have r: "fst (coldStart s) = Ok False \<and> status (snd (coldStart s)) = CAL_FAILED
       \<and> trace (snd (coldStart s)) = trace s @ [Sent ''30n'', Sent ''20m'', StateCb CAL_FAILED]"
    using coldStart_el_refused by blast
  from r show "fst (coldStart s) = Ok False" by blast
  from r show "status (snd (coldStart s)) = CAL_FAILED" by blast
  from r show "sent_by s (snd (coldStart s)) = [''30n'', ''20m'']" by (simp add: sent_by_trace)
next
  assume a: "config_cal s ''AZ'' = Some az \<and> config_cal s ''EL'' = Some el"
  then have sub: "set (sent_by s (snd (coldStart s)))
           \<subseteq> {''30n'', ''20m'', py_str az @ ''a'', py_str el @ ''b''}"
    using coldStart_preset_sends by blast
  have "''calaz'' \<notin> {''30n'', ''20m'', py_str az @ ''a'', py_str el @ ''b''}"
    using preset_not_calibrate [of "py_str az"] preset_not_calibrate [of "py_str el"] by auto
  with sub show "''calaz'' \<notin> set (sent_by s (snd (coldStart s)))" by blast
  have "''calel'' \<notin> {''30n'', ''20m'', py_str az @ ''a'', py_str el @ ''b''}"
    using preset_not_calibrate [of "py_str az"] preset_not_calibrate [of "py_str el"] by auto
  with sub show "''calel'' \<notin> set (sent_by s (snd (coldStart s)))" by blast
next
  assume a: "status s \<noteq> OFFLINE \<and> config_cal s ''AZ'' = Some az \<and> config_cal s ''EL'' = Some el
        \<and> acked (coming 0 s) \<and> acked (coming 1 s) \<and> acked (coming 2 s) \<and> acked (coming 3 s)"
  then have r: "fst (coldStart s) = Ok True \<and> status (snd (coldStart s)) = ONLINE
       \<and> trace (snd (coldStart s)) = trace s @
            [Sent ''30n'', Sent ''20m'', Sent (py_str az @ ''a''), Sent (py_str el @ ''b''),
             StateCb ONLINE]"
    using coldStart_preset_online by blast
  from r show "fst (coldStart s) = Ok True" by blast
  from r show "status (snd (coldStart s)) = ONLINE" by blast
  from r show "sent_by s (snd (coldStart s)) = [''30n'', ''20m'', py_str az @ ''a'', py_str el @ ''b'']"
    by (simp add: sent_by_trace)
next
  assume a: "status s \<noteq> OFFLINE \<and> (config_cal s ''AZ'' = None \<or> config_cal s ''EL'' = None)
        \<and> acked (coming 0 s) \<and> acked (coming 1 s) \<and> acked (coming 2 s) \<and> acked (coming 3 s)"
  then have r: "fst (coldStart s) = Ok True \<and> status (snd (coldStart s)) = ONLINE
       \<and> trace (snd (coldStart s)) = trace s @
            [Sent ''30n'', Sent ''20m'', Sent ''calaz'', SetDegAz 0, Sent ''calel'', SetDegEl 0,
             StateCb ONLINE]"
    using coldStart_calibrate_online by blast
  from r show "fst (coldStart s) = Ok True" by blast
  from r show "status (snd (coldStart s)) = ONLINE" by blast
  from r show "sent_by s (snd (coldStart s)) = [''30n'', ''20m'', ''calaz'', ''calel'']"
    by (simp add: sent_by_trace)
qed

theorem coldStart_behaviour_witness:
  "fst (coldStart starting) = Ok True
   \<and> status (snd (coldStart starting)) = ONLINE
   \<and> sent_by starting (snd (coldStart starting)) = [''30n'', ''20m'', ''12345a'', ''6789b'']
   \<and> ''calaz'' \<notin> set (sent_by starting (snd (coldStart starting)))
   \<and> ''calel'' \<notin> set (sent_by starting (snd (coldStart starting)))
   \<and> fst (coldStart waiting) = Ok False
   \<and> status (snd (coldStart waiting)) = CAL_FAILED
   \<and> sent_by waiting (snd (coldStart waiting)) = [''30n'']
   \<and> coldStart idle = (Ok True, idle)"
proof -
  have s: "status starting \<noteq> OFFLINE"
    "config_cal starting ''AZ'' = Some (IntV 12345)" "config_cal starting ''EL'' = Some (IntV 6789)"
    "acked (coming 0 starting)" "acked (coming 1 starting)"
    "acked (coming 2 starting)" "acked (coming 3 starting)"
    by (simp_all add: starting_def RotIf_init_def coming_def acked_def eval_nat_numeral)
  have w: "status waiting \<noteq> OFFLINE" "refused (coming 0 waiting)"
    by (simp_all add: waiting_def idle_def RotIf_init_def coming_def refused_def)
  have i: "status idle = OFFLINE" by (simp add: idle_def RotIf_init_def)
  have p: "py_str (IntV 12345) @ ''a'' = ''12345a''" "py_str (IntV 6789) @ ''b'' = ''6789b''"
    by (simp_all add: py_str_def str_int_def digits.simps digit_char_def)
  have a: "fst (coldStart starting) = Ok True \<and> status (snd (coldStart starting)) = ONLINE
      \<and> sent_by starting (snd (coldStart starting))
          = [''30n'', ''20m'', py_str (IntV 12345) @ ''a'', py_str (IntV 6789) @ ''b'']
      \<and> ''calaz'' \<notin> set (sent_by starting (snd (coldStart starting)))
      \<and> ''calel'' \<notin> set (sent_by starting (snd (coldStart starting)))"
    using coldStart_behaviour [of starting "IntV 12345" "IntV 6789"] s by blast
  have b: "fst (coldStart waiting) = Ok False \<and> status (snd (coldStart waiting)) = CAL_FAILED
      \<and> sent_by waiting (snd (coldStart waiting)) = [''30n'']"
    using coldStart_behaviour [of waiting "IntV 0" "IntV 0"] w by blast
  have c: "coldStart idle = (Ok True, idle)"
    using coldStart_behaviour [of idle "IntV 0" "IntV 0"] i by blast
  show ?thesis using a b c unfolding p by blast
qed

section \<open>The event receiver\<close>

text \<open>
  C2. Two malformed payloads. For \<^verbatim>\<open>az:abc\<close> the handler of
  \<^verbatim>\<open>ValueError\<close> is entered and its log call raises \<^verbatim>\<open>TypeError\<close>; for
  \<^verbatim>\<open>garbage\<close>, which has no colon, \<^verbatim>\<open>IndexError\<close> is raised and no handler
  catches it. The positions and the trace are unchanged and nothing is
  logged, but the exception leaves the handler and ends the event thread:
  the well-formed event that follows is never read.
\<close>

theorem event_callback_malformed_raises:
  "event_callback ''az:abc'' idle = (Raise TypeError, idle)
   \<and> event_callback ''garbage'' idle = (Raise IndexError, idle)
   \<and> fst (EvntIf_run [Datagram ''az:abc'', Datagram ''az:10''] idle) = Raise TypeError
   \<and> rot_msgq (snd (EvntIf_run [Datagram ''az:abc'', Datagram ''az:10''] idle))
       = rot_msgq idle @ [LogText ''Event thread starting (position events) ...'']
   \<and> fst (EvntIf_run [Datagram ''garbage''] idle) = Raise IndexError"
proof -
  have v: "py_int ''abc'' = None"
    by code_simp
  have a: "event_callback ''az:abc'' s = (Raise TypeError, s)" for s
    by (simp add: event_callback_def event_try_def v numeral_2_eq_2)
  have g: "event_callback ''garbage'' s = (Raise IndexError, s)" for s
    by (simp add: event_callback_def event_try_def numeral_2_eq_2)
  have u: "decode_utf8 ''az:abc'' = Ok ''az:abc''" "decode_utf8 ''garbage'' = Ok ''garbage''"
    by (simp_all add: decode_utf8_def)
  show ?thesis
    by (simp add: a g u EvntIf_run_def evnt_step_def rot_log_def)
qed

text \<open>
  C8. The handler of a position event calls the position callback before it
  assigns the position: on a fresh interface, whose positions are unknown,
  the events \<^verbatim>\<open>az:5\<close> and \<^verbatim>\<open>el:45\<close> reach the sink while the field still
  holds \<open>- 1\<close>. The methods \<^verbatim>\<open>homeAz\<close> and \<^verbatim>\<open>homeEl\<close> of the same class, which
  report a position too, assign it first and call the callback after.
\<close>

theorem position_event_sink_first:
  "degaz idle = - 1 \<and> degel idle = - 1
   \<and> event_callback ''az:5'' idle
        = (Ok (), idle\<lparr>trace := [PosCb ''az'' 5, SetDegAz 5], degaz := 5\<rparr>)
   \<and> event_callback ''el:45'' idle
        = (Ok (), idle\<lparr>trace := [PosCb ''el'' 45, SetDegEl 45], degel := 45\<rparr>)
   \<and> new_effects idle (snd (event_callback ''az:5'' idle)) = [PosCb ''az'' 5, SetDegAz 5]
   \<and> new_effects idle (snd (event_callback ''el:45'' idle)) = [PosCb ''el'' 45, SetDegEl 45]
   \<and> new_effects waiting (snd (homeAz waiting)) = [Sent ''homeaz'', SetDegAz 0, PosCb ''az'' 0]
   \<and> new_effects waiting (snd (homeEl waiting)) = [Sent ''homeel'', SetDegEl 0, PosCb ''el'' 0]"
proof -
  have v: "py_int ''5'' = Some 5" "py_int ''45'' = Some 45" by code_simp+
  have 0: "degaz idle = - 1 \<and> degel idle = - 1"
    by (simp add: idle_def RotIf_init_def)
  have 1: "event_callback ''az:5'' idle
        = (Ok (), idle\<lparr>trace := [PosCb ''az'' 5, SetDegAz 5], degaz := 5\<rparr>)"
    by (simp add: event_callback_def event_try_def v emit_def idle_def RotIf_init_def
        numeral_2_eq_2)
  have 2: "event_callback ''el:45'' idle
        = (Ok (), idle\<lparr>trace := [PosCb ''el'' 45, SetDegEl 45], degel := 45\<rparr>)"
    by (simp add: event_callback_def event_try_def v emit_def idle_def RotIf_init_def
        numeral_2_eq_2)
  have 3: "new_effects idle (snd (event_callback ''az:5'' idle)) = [PosCb ''az'' 5, SetDegAz 5]"
    unfolding 1 by (simp add: new_effects_def idle_def RotIf_init_def)
  have 4: "new_effects idle (snd (event_callback ''el:45'' idle)) = [PosCb ''el'' 45, SetDegEl 45]"
    unfolding 2 by (simp add: new_effects_def idle_def RotIf_init_def)
  have 5: "new_effects waiting (snd (homeAz waiting)) = [Sent ''homeaz'', SetDegAz 0, PosCb ''az'' 0]"
    by (simp add: homeAz_def exchange_pair outcome_def coming_def stepped_def emit_def
        new_effects_def waiting_def idle_def RotIf_init_def)
  have 6: "new_effects waiting (snd (homeEl waiting)) = [Sent ''homeel'', SetDegEl 0, PosCb ''el'' 0]"
    by (simp add: homeEl_def exchange_pair outcome_def coming_def stepped_def emit_def
        new_effects_def waiting_def idle_def RotIf_init_def)
  show ?thesis using 0 1 2 3 4 5 6 by blast
qed

section \<open>The rotator protocol server\<close>

text \<open>
  C4, as the code has it. A line \<^verbatim>\<open>P <az> <el>\<close> whose two arguments parse
  as finite floats: each is truncated to an integer, \<^verbatim>\<open>setPosAz\<close> and then
  \<^verbatim>\<open>setPosEl\<close> are appended to the command deque with those integers, the
  position callback is called and \<^verbatim>\<open>RPRT 0\<close> is queued for the tracker. When
  the rotator thread serves the two commands while the rotator is not
  offline, the controller acknowledges the home command of each axis whose
  position is unknown, and the exchange of \<^verbatim>\<open><az>z\<close> returns, the datagrams
  \<^verbatim>\<open><az>z\<close> and \<^verbatim>\<open><el>e\<close> are sent in that order, each after the home
  command of its axis when the position of that axis is unknown.
\<close>

theorem sat_P_moves_in_order:
  assumes "split_ws msg = [''P'', a, b]"
    and "py_float a = Some (Fin x)" and "py_float b = Some (Fin y)"
  shows "sat_listenCallback msg s =
     s\<lparr>azimuth := py_trunc x, elevation := py_trunc y,
       sat_cmdq := sat_cmdq s @ [(''setPosAz'', [IntV (py_trunc x)]), (''setPosEl'', [IntV (py_trunc y)])],
       position_calls := position_calls s @ [(py_trunc x, py_trunc y)],
       sat_sendq := sat_sendq s @ [''RPRT 0\<newline>'']\<rparr>
   \<and> (status r \<noteq> OFFLINE
        \<and> (degaz r = - 1 \<longrightarrow> acked (coming 0 r))
        \<and> returning (coming (if degaz r = - 1 then 1 else 0) r)
        \<and> (degel r = - 1 \<longrightarrow> acked (coming (if degaz r = - 1 then 2 else 1) r)) \<longrightarrow>
        sent_by r (snd (run_cmdq [(''setPosAz'', [IntV (py_trunc x)]),
                                   (''setPosEl'', [IntV (py_trunc y)])] r))
          = (if degaz r = - 1 then [''homeaz''] else []) @ [str_int (py_trunc x) @ ''z'']
            @ (if degel r = - 1 then [''homeel''] else []) @ [str_int (py_trunc y) @ ''e''])"
proof (intro conjI impI)
  show "sat_listenCallback msg s =
     s\<lparr>azimuth := py_trunc x, elevation := py_trunc y,
       sat_cmdq := sat_cmdq s @ [(''setPosAz'', [IntV (py_trunc x)]), (''setPosEl'', [IntV (py_trunc y)])],
       position_calls := position_calls s @ [(py_trunc x, py_trunc y)],
       sat_sendq := sat_sendq s @ [''RPRT 0\<newline>'']\<rparr>"
    by (simp add: sat_listenCallback_def sat_body_P [OF assms(1)] sat_set_pos_def
        sat_set_pos_try_def int_float_Fin [OF assms(2)] int_float_Fin [OF assms(3)]
        sat_enqueue_def sat_send_def)
next
  assume h: "status r \<noteq> OFFLINE
        \<and> (degaz r = - 1 \<longrightarrow> acked (coming 0 r))
        \<and> returning (coming (if degaz r = - 1 then 1 else 0) r)
        \<and> (degel r = - 1 \<longrightarrow> acked (coming (if degaz r = - 1 then 2 else 1) r))"
  obtain r1 es1 where 1: "run_item (''setPosAz'', [IntV (py_trunc x)]) r = (Ok (), r1)"
      and s1: "status r1 = status r" and e1: "degel r1 = degel r"
      and t1: "trace r1 = trace r @ es1"
      and a1: "sent_of es1 = (if degaz r = - 1 then [''homeaz''] else []) @ [str_int (py_trunc x) @ ''z'']"
      and c1: "\<forall>k. coming k r1 = coming (k + (if degaz r = - 1 then 2 else 1)) r"
    using run_item_setPosAz_any [of r "py_trunc x"] h by blast
  have c0: "coming 0 r1 = coming (if degaz r = - 1 then 2 else 1) r"
    using c1 by simp
  have "status r1 \<noteq> OFFLINE" and "degel r1 = - 1 \<longrightarrow> acked (coming 0 r1)"
    using h s1 e1 c0 by simp_all
  then obtain es2 where
      t2: "trace (snd (run_item (''setPosEl'', [IntV (py_trunc y)]) r1)) = trace r1 @ es2"
      and a2: "sent_of es2 = (if degel r1 = - 1 then [''homeel''] else []) @ [str_int (py_trunc y) @ ''e'']"
    using run_item_setPosEl_any [of r1 "py_trunc y"] by blast
  have "snd (run_cmdq [(''setPosAz'', [IntV (py_trunc x)]), (''setPosEl'', [IntV (py_trunc y)])] r)
          = snd (run_item (''setPosEl'', [IntV (py_trunc y)]) r1)"
    using 1 by (auto split: prod.splits res.splits)
  then have "trace (snd (run_cmdq [(''setPosAz'', [IntV (py_trunc x)]),
                                    (''setPosEl'', [IntV (py_trunc y)])] r))
          = trace r @ (es1 @ es2)"
    using t1 t2 by simp
  then have "sent_by r (snd (run_cmdq [(''setPosAz'', [IntV (py_trunc x)]),
                                   (''setPosEl'', [IntV (py_trunc y)])] r)) = sent_of (es1 @ es2)"
    by (rule sent_by_trace)
  then show "sent_by r (snd (run_cmdq [(''setPosAz'', [IntV (py_trunc x)]),
                                   (''setPosEl'', [IntV (py_trunc y)])] r))
          = (if degaz r = - 1 then [''homeaz''] else []) @ [str_int (py_trunc x) @ ''z'']
            @ (if degel r = - 1 then [''homeel''] else []) @ [str_int (py_trunc y) @ ''e'']"
    using a1 a2 e1 by simp
qed

text \<open>
  The tracker's line \<^verbatim>\<open>P 123.4 45.6\<close>. An interface that knows both positions
  sends \<^verbatim>\<open>123z\<close>, then \<^verbatim>\<open>45e\<close>; one that knows neither sends \<^verbatim>\<open>homeaz\<close>,
  \<^verbatim>\<open>123z\<close>, \<^verbatim>\<open>homeel\<close>, \<^verbatim>\<open>45e\<close>.
\<close>

theorem sat_P_moves_in_order_witness:
  "sat_listenCallback ''P 123.4 45.6\<newline>'' (SatIf_init [] []) =
     (SatIf_init [] [])\<lparr>azimuth := 123, elevation := 45,
       sat_cmdq := [(''setPosAz'', [IntV 123]), (''setPosEl'', [IntV 45])],
       position_calls := [(123, 45)],
       sat_sendq := [''RPRT 0\<newline>'']\<rparr>
   \<and> sent_by online (snd (run_cmdq [(''setPosAz'', [IntV 123]), (''setPosEl'', [IntV 45])] online))
        = [''123z'', ''45e'']
   \<and> sent_by homing (snd (run_cmdq [(''setPosAz'', [IntV 123]), (''setPosEl'', [IntV 45])] homing))
        = [''homeaz'', ''123z'', ''homeel'', ''45e'']"
proof -
  have t: "split_ws ''P 123.4 45.6\<newline>'' = [''P'', ''123.4'', ''45.6'']"
    by code_simp
  have a: "py_float ''123.4'' = Some (Fin (4341751515761869 / 35184372088832))" by code_simp
  have b: "py_float ''45.6'' = Some (Fin (6417629469002957 / 140737488355328))" by code_simp
  have ta: "py_trunc (4341751515761869 / 35184372088832) = 123" by code_simp
  have tb: "py_trunc (6417629469002957 / 140737488355328) = 45" by code_simp
  have d: "str_int 123 = ''123''" "str_int 45 = ''45''" by code_simp+
  have o: "status online \<noteq> OFFLINE" "degaz online \<noteq> - 1" "degel online \<noteq> - 1"
    "returning (coming 0 online)"
    by (simp_all add: online_def idle_def RotIf_init_def coming_def returning_def)
  have g: "status homing \<noteq> OFFLINE" "degaz homing = - 1" "degel homing = - 1"
    "acked (coming 0 homing)" "returning (coming 1 homing)" "acked (coming 2 homing)"
    by (simp_all add: homing_def idle_def RotIf_init_def coming_def returning_def acked_def
        utf8_valid.simps byte_in_def)
  note T = sat_P_moves_in_order [OF t a b, of "SatIf_init [] []" online]
  note U = sat_P_moves_in_order [OF t a b, of "SatIf_init [] []" homing]
  have 1: "sat_listenCallback ''P 123.4 45.6\<newline>'' (SatIf_init [] []) =
     (SatIf_init [] [])\<lparr>azimuth := 123, elevation := 45,
       sat_cmdq := [(''setPosAz'', [IntV 123]), (''setPosEl'', [IntV 45])],
       position_calls := [(123, 45)],
       sat_sendq := [''RPRT 0\<newline>'']\<rparr>"
    using T unfolding ta tb by (simp add: SatIf_init_def)
  have 2: "sent_by online (snd (run_cmdq [(''setPosAz'', [IntV 123]), (''setPosEl'', [IntV 45])] online))
        = [''123z'', ''45e'']"
    using T o unfolding ta tb d by simp
  have 3: "sent_by homing (snd (run_cmdq [(''setPosAz'', [IntV 123]), (''setPosEl'', [IntV 45])] homing))
        = [''homeaz'', ''123z'', ''homeel'', ''45e'']"
    using U g unfolding ta tb d by simp
  show ?thesis using 1 2 3 by blast
qed

text \<open>
  C4, as stated, fails. \<^verbatim>\<open>nan\<close> and \<^verbatim>\<open>inf\<close> parse as floats, but they
  have no integer value: for \<^verbatim>\<open>P nan 0\<close> and for \<^verbatim>\<open>P inf 0\<close> nothing is
  queued and no \<^verbatim>\<open>RPRT 0\<close> is sent. For two queued moves to 10 and 20
  degrees, a rotator that is offline sends nothing; when the controller
  refuses \<^verbatim>\<open>homeaz\<close>, \<^verbatim>\<open>10z\<close> is not sent; when the exchange of \<^verbatim>\<open>10z\<close>
  raises, the rotator thread ends and \<^verbatim>\<open>20e\<close> is not sent; and when the
  controller does not answer \<^verbatim>\<open>homeel\<close>, \<^verbatim>\<open>20e\<close> is not sent.
\<close>

theorem sat_P_not_always_moves:
  "py_float ''nan'' = Some NaN \<and> py_float ''inf'' = Some PInf \<and> py_float ''0'' = Some (Fin 0)
   \<and> sat_listenCallback ''P nan 0\<newline>'' (SatIf_init [] []) =
       (SatIf_init [] [])\<lparr>sat_msgq :=
            [LogException ''Problem with sat control, error in callback'' NameError],
          sat_restart := True\<rparr>
   \<and> sat_listenCallback ''P inf 0\<newline>'' (SatIf_init [] []) =
       (SatIf_init [] [])\<lparr>sat_msgq :=
            [LogException ''Problem with sat control, error in callback'' OverflowError],
          sat_restart := True\<rparr>
   \<and> sent_by idle (snd (run_cmdq [(''setPosAz'', [IntV 10]), (''setPosEl'', [IntV 20])] idle)) = []
   \<and> sent_by refusing (snd (run_cmdq [(''setPosAz'', [IntV 10]), (''setPosEl'', [IntV 20])] refusing))
        = [''homeaz'', ''homeel'']
   \<and> run_cmdq [(''setPosAz'', [IntV 10]), (''setPosEl'', [IntV 20])] garbled
        = (Raise UnicodeDecodeError, stepped MOV_TIMEOUT ''10z'' garbled)
   \<and> sent_by garbled (stepped MOV_TIMEOUT ''10z'' garbled) = [''10z'']
   \<and> sent_by unhomed (snd (run_cmdq [(''setPosAz'', [IntV 10]), (''setPosEl'', [IntV 20])] unhomed))
        = [''10z'', ''homeel'']"
proof -
  have n: "py_float ''nan'' = Some NaN" by code_simp
  have i: "py_float ''inf'' = Some PInf" by code_simp
  have z: "py_float ''0'' = Some (Fin 0)" by code_simp
  have t: "split_ws ''P nan 0\<newline>'' = [''P'', ''nan'', ''0'']"
    by code_simp
  have u: "split_ws ''P inf 0\<newline>'' = [''P'', ''inf'', ''0'']"
    by code_simp
  have 1: "sat_listenCallback ''P nan 0\<newline>'' (SatIf_init [] []) =
       (SatIf_init [] [])\<lparr>sat_msgq :=
            [LogException ''Problem with sat control, error in callback'' NameError],
          sat_restart := True\<rparr>"
    by (simp add: sat_listenCallback_def sat_body_P [OF t] sat_set_pos_def sat_set_pos_try_def
        int_float_def n sat_log_def SatIf_init_def)
  have 2: "sat_listenCallback ''P inf 0\<newline>'' (SatIf_init [] []) =
       (SatIf_init [] [])\<lparr>sat_msgq :=
            [LogException ''Problem with sat control, error in callback'' OverflowError],
          sat_restart := True\<rparr>"
    by (simp add: sat_listenCallback_def sat_body_P [OF u] sat_set_pos_def sat_set_pos_try_def
        int_float_def i sat_log_def SatIf_init_def)
  have d: "py_str (IntV 10) = ''10''" "py_str (IntV 20) = ''20''" by code_simp+
  have 3: "sent_by idle (snd (run_cmdq [(''setPosAz'', [IntV 10]), (''setPosEl'', [IntV 20])] idle)) = []"
    by (simp add: run_item_def lookup_names_def call_with_args_def truthy_def setPosAz_def
        setPosEl_def homeAz_def homeEl_def move_to_def emit_def idle_def RotIf_init_def
        sent_by_def new_effects_def)
  have 4: "sent_by refusing (snd (run_cmdq [(''setPosAz'', [IntV 10]), (''setPosEl'', [IntV 20])] refusing))
        = [''homeaz'', ''homeel'']"
    by (simp add: run_item_def lookup_names_def call_with_args_def truthy_def setPosAz_def
        setPosEl_def homeAz_def homeEl_def move_to_def emit_def refusing_def idle_def
        RotIf_init_def sent_by_def new_effects_def exchange_pair outcome_def coming_def
        stepped_def utf8_valid.simps byte_in_def d)
  have 5: "run_cmdq [(''setPosAz'', [IntV 10]), (''setPosEl'', [IntV 20])] garbled
        = (Raise UnicodeDecodeError, stepped MOV_TIMEOUT ''10z'' garbled)"
    by (simp add: run_item_def lookup_names_def call_with_args_def truthy_def setPosAz_def
        move_to_def garbled_def online_def idle_def
        RotIf_init_def exchange_pair outcome_def coming_def utf8_valid.simps byte_in_def d)
  have 6: "sent_by garbled (stepped MOV_TIMEOUT ''10z'' garbled) = [''10z'']"
    by (simp add: sent_by_def new_effects_def)
  have 7: "sent_by unhomed (snd (run_cmdq [(''setPosAz'', [IntV 10]), (''setPosEl'', [IntV 20])] unhomed))
        = [''10z'', ''homeel'']"
    by (simp add: run_item_def lookup_names_def call_with_args_def truthy_def setPosAz_def
        setPosEl_def homeAz_def homeEl_def move_to_def emit_def unhomed_def online_def idle_def
        RotIf_init_def sent_by_def new_effects_def exchange_pair outcome_def coming_def
        stepped_def d)
  show ?thesis using n i z 1 2 3 4 5 6 7 by blast
qed

end
